theory Spec2Isabelle
  imports Complex_Main
begin

section \<open>Eclipse datasets, their selection and interpolation\<close>

text \<open>
  The model follows \<^verbatim>\<open>SunLayer.prototype.initialize\<close> of
  \<^verbatim>\<open>examples/SunLayer2.js\<close>. JavaScript numbers are idealised as
  real numbers throughout. An entry of \<^verbatim>\<open>all_bessel\<close> and the object
  built by \<^verbatim>\<open>getElements\<close> have the same ten field names; the array-valued
  fields hold four coefficients in the table and one number in the result, so
  both are instances of one record whose parameter is the type of those
  fields. The table writes \<^verbatim>\<open>deltat\<close> as a string of digits
  (\<^verbatim>\<open>"68.6"\<close>), which \<^verbatim>\<open>gl.uniform1f\<close> converts to the
  number; the model holds the number.
\<close>

type_synonym cubic = "real \<times> real \<times> real \<times> real"

record 'a bessel =
  tanf2 :: real
  t0 :: real
  b_d :: 'a
  b_x :: 'a
  b_y :: 'a
  l1 :: 'a
  deltat :: real
  l2 :: 'a
  tanf1 :: real
  mu :: 'a

type_synonym dataset = "cubic bessel"
type_synonym elements = "real bessel"

definition bessel_0 :: dataset where
  "bessel_0 = \<lparr>tanf2 = 0.0046984, t0 = 1488121131.4, b_d = (- 8.4916401, 0.015261, 0.000002, 0),
     b_x = (0.175941, 0.5253564, - 0.0000062, - 0.0000074), b_y = (- 0.42556, 0.1532541, 0.0000792, - 0.0000021),
     l1 = (0.55247, - 0.0001257, - 0.0000115, 0), deltat = 68.6,
     l2 = (0.006301, - 0.0001251, - 0.0000115, 0), tanf1 = 0.0047219,
     mu = (41.7989387, 15.0030899, 0, 0)\<rparr>"

definition bessel_1 :: dataset where
  "bessel_1 = \<lparr>tanf2 = 0.0045992, t0 = 1503338331.2, b_d = (11.8669596, - 0.013622, - 0.000002, 0),
     b_x = (- 0.129571, 0.5406426, - 0.0000294, - 0.0000081), b_y = (0.485416, - 0.14164, - 0.0000905, 0.000002),
     l1 = (0.542093, 0.0001241, - 0.0000118, 0), deltat = 68.8,
     l2 = (- 0.004025, 0.0001234, - 0.0000117, 0), tanf1 = 0.0046222,
     mu = (89.24543, 15.0039396, 0, 0)\<rparr>"

definition bessel_2 :: dataset where
  "bessel_2 = \<lparr>tanf2 = 0.0047104, t0 = 1518728330.9, b_d = (- 12.4640398, 0.01408, 0.000003, 0),
     b_x = (0.36362, 0.4990523, - 0.0000212, - 0.0000059), b_y = (- 1.157549, 0.1283336, 0.0001268, - 0.0000014),
     l1 = (0.568257, - 0.0000923, - 0.0000103, 0), deltat = 69.1,
     l2 = (0.022009, - 0.0000918, - 0.0000102, 0), tanf1 = 0.004734,
     mu = (131.4807434, 15.0018196, 0, 0)\<rparr>"

definition bessel_3 :: dataset where
  "bessel_3 = \<lparr>tanf2 = 0.0045759, t0 = 1531450730.8, b_d = (21.8453102, - 0.005937, - 0.000005, 0),
     b_x = (- 0.099286, 0.5828147, - 0.0000013, - 0.0000099), b_y = (- 1.350769, - 0.0332933, - 0.000077, 0.0000005),
     l1 = (0.530168, - 0.0000118, - 0.0000128, 0), deltat = 69.2,
     l2 = (- 0.01589, - 0.0000118, - 0.0000127, 0), tanf1 = 0.0045988,
     mu = (223.5707855, 15.0002403, 0, 0)\<rparr>"

definition bessel_4 :: dataset where
  "bessel_4 = \<lparr>tanf2 = 0.0045897, t0 = 1533981530.7, b_d = (15.2167301, - 0.012076, - 0.000003, 0),
     b_x = (0.367508, 0.5684958, - 0.0000477, - 0.0000096), b_y = (1.093919, - 0.1262935, - 0.0001598, 0.0000021),
     l1 = (0.531698, 0.0000338, - 0.0000128, 0), deltat = 69.3,
     l2 = (- 0.014368, 0.0000336, - 0.0000127, 0), tanf1 = 0.0046127,
     mu = (328.696106, 15.0030804, 0, 0)\<rparr>"

definition bessel_5 :: dataset where
  "bessel_5 = \<lparr>tanf2 = 0.0047325, t0 = 1546739930.6, b_d = (- 22.54492, 0.004848, 0.000006, 0),
     b_x = (0.128373, 0.5082384, - 0.0000162, - 0.0000058), b_y = (1.144022, 0.0084236, 0.0001036, 0),
     l1 = (0.572702, 0.0000575, - 0.0000101, 0), deltat = 69.4,
     l2 = (0.026432, 0.0000572, - 0.00001, 0), tanf1 = 0.0047562,
     mu = (208.6152954, 14.9967403, 0, 0)\<rparr>"

definition bessel_6 :: dataset where
  "bessel_6 = \<lparr>tanf2 = 0.0045755, t0 = 1562093930.4, b_d = (23.0129509, - 0.003187, - 0.000005, 0),
     b_x = (- 0.215634, 0.5662087, 0.0000274, - 0.0000088), b_y = (- 0.650708, 0.0106399, - 0.0001272, - 0.0000003),
     l1 = (0.537631, - 0.0000898, - 0.000012, 0), deltat = 69.6,
     l2 = (- 0.008464, - 0.0000894, - 0.000012, 0), tanf1 = 0.0045984,
     mu = (103.9797287, 14.9995098, 0, 0)\<rparr>"

definition bessel_7 :: dataset where
  "bessel_7 = \<lparr>tanf2 = 0.0047311, t0 = 1577336328.5, b_d = (- 23.3734703, 0.001407, 0.000006, 0),
     b_x = (- 0.140413, 0.5356103, - 0.0000015, - 0.0000072), b_y = (0.424075, - 0.0366551, 0.0001458, 0.0000006),
     l1 = (0.558887, 0.0001284, - 0.0000112, 0), deltat = 71.5,
     l2 = (0.012686, 0.0001277, - 0.0000111, 0), tanf1 = 0.0047548,
     mu = (254.9367676, 14.9962702, 0, 0)\<rparr>"

definition bessel_8 :: dataset where
  "bessel_8 = \<lparr>tanf2 = 0.004578, t0 = 1592722728.2, b_d = (23.4356709, - 0.000233, - 0.000006, 0),
     b_x = (0.154259, 0.5311546, 0.0000259, - 0.0000069), b_y = (0.136409, 0.0513871, - 0.000161, - 0.0000008),
     l1 = (0.552318, - 0.0001223, - 0.0000107, 0), deltat = 71.8,
     l2 = (0.00615, - 0.0001217, - 0.0000107, 0), tanf1 = 0.0046009,
     mu = (284.5355225, 14.9991102, 0, 0)\<rparr>"

definition bessel_9 :: dataset where
  "bessel_9 = \<lparr>tanf2 = 0.0047266, t0 = 1607961527.9, b_d = (- 23.2577591, - 0.001986, 0.000006, 0),
     b_x = (- 0.181824, 0.5633567, 0.0000216, - 0.000009), b_y = (- 0.269645, - 0.0858122, 0.0001884, 0.0000015),
     l1 = (0.543862, 0.000097, - 0.0000126, 0), deltat = 72.1,
     l2 = (- 0.002265, 0.0000965, - 0.0000125, 0), tanf1 = 0.0047502,
     mu = (61.2659111, 14.9965, 0, 0)\<rparr>"

definition bessel_10 :: dataset where
  "bessel_10 = \<lparr>tanf2 = 0.004583, t0 = 1623322727.7, b_d = (23.0422802, 0.002841, - 0.000005, 0),
     b_x = (- 0.018704, 0.5012289, 0.0000342, - 0.0000057), b_y = (0.926106, 0.0887765, - 0.0001797, - 0.0000011),
     l1 = (0.56438, - 0.0000551, - 0.0000098, 0), deltat = 72.3,
     l2 = (0.018151, - 0.0000548, - 0.0000097, 0), tanf1 = 0.004606,
     mu = (345.1269226, 14.9991999, 0, 0)\<rparr>"

definition bessel_11 :: dataset where
  "bessel_11 = \<lparr>tanf2 = 0.0047198, t0 = 1638604727.4, b_d = (- 22.2747192, - 0.005178, 0.000006, 0),
     b_x = (0.025209, 0.5683028, 0.0000391, - 0.0000097), b_y = (- 0.983653, - 0.1315142, 0.0002213, 0.0000024),
     l1 = (0.537805, - 0.000016, - 0.0000131, 0), deltat = 72.6,
     l2 = (- 0.008292, - 0.000016, - 0.0000131, 0), tanf1 = 0.0047434,
     mu = (302.452179, 14.9972801, 0, 0)\<rparr>"

definition bessel_12 :: dataset where
  "bessel_12 = \<lparr>tanf2 = 0.0046189, t0 = 1651352327.2, b_d = (14.9710398, 0.012167, - 0.000003, 0),
     b_x = (0.61808, 0.4753147, - 0.0000015, - 0.0000057), b_y = (- 1.028089, 0.2096405, - 0.0000432, - 0.0000027),
     l1 = (0.561073, 0.0000847, - 0.0000103, 0), deltat = 72.8,
     l2 = (0.014861, 0.0000843, - 0.0000102, 0), tanf1 = 0.004642,
     mu = (135.7055969, 15.00247, 0, 0)\<rparr>"

definition bessel_13 :: dataset where
  "bessel_13 = \<lparr>tanf2 = 0.0046785, t0 = 1666695526.9, b_d = (- 12.17348, - 0.013746, 0.000003, 0),
     b_x = (0.454792, 0.4955495, 0.0000277, - 0.000007), b_y = (0.968771, - 0.2395876, 0.0000167, 0.0000036),
     l1 = (0.549879, - 0.0001152, - 0.0000116, 0), deltat = 73.1,
     l2 = (0.003723, - 0.0001146, - 0.0000116, 0), tanf1 = 0.0047019,
     mu = (348.9822693, 15.00243, 0, 0)\<rparr>"

definition bessel_14 :: dataset where
  "bessel_14 = \<lparr>tanf2 = 0.0046318, t0 = 1681963126.6, b_d = (11.4117899, 0.013741, - 0.000003, 0),
     b_x = (0.02685, 0.4950182, 0.0000135, - 0.0000071), b_y = (- 0.427366, 0.2441992, - 0.0000494, - 0.0000037),
     l1 = (0.546804, 0.0001216, - 0.0000116, 0), deltat = 73.4,
     l2 = (0.000663, 0.000121, - 0.0000115, 0), tanf1 = 0.004655,
     mu = (240.2429352, 15.0034199, 0, 0)\<rparr>"

definition bessel_15 :: dataset where
  "bessel_15 = \<lparr>tanf2 = 0.0046648, t0 = 1697306326.3, b_d = (- 8.2441902, - 0.014888, 0.000002, 0),
     b_x = (0.169658, 0.4585533, 0.0000278, - 0.0000054), b_y = (0.334859, - 0.2413671, 0.000024, 0.000003),
     l1 = (0.564311, - 0.0000891, - 0.0000103, 0), deltat = 73.7,
     l2 = (0.018083, - 0.0000886, - 0.0000103, 0), tanf1 = 0.0046882,
     mu = (93.5017319, 15.0035295, 0, 0)\<rparr>"

definition bessel_16 :: dataset where
  "bessel_16 = \<lparr>tanf2 = 0.004645, t0 = 1712599126, b_d = (7.5862002, 0.014844, - 0.000002, 0),
     b_x = (- 0.318244, 0.5117116, 0.0000326, - 0.0000084), b_y = (0.219764, 0.2709589, - 0.0000595, - 0.0000047),
     l1 = (0.535814, 0.0000618, - 0.0000128, 0), deltat = 74.0,
     l2 = (- 0.010272, 0.0000615, - 0.0000127, 0), tanf1 = 0.0046683,
     mu = (89.591217, 15.0040798, 0, 0)\<rparr>"

definition bessel_17 :: dataset where
  "bessel_17 = \<lparr>tanf2 = 0.0046501, t0 = 1727895525.7, b_d = (- 3.9872501, - 0.015511, 0.000001, 0),
     b_x = (- 0.068048, 0.441617, 0.0000136, - 0.0000048), b_y = (- 0.36317, - 0.243563, 0.0000339, 0.0000028),
     l1 = (0.570349, - 0.0000002, - 0.0000098, 0), deltat = 74.3,
     l2 = (0.024091, - 0.0000002, - 0.0000097, 0), tanf1 = 0.0046734,
     mu = (107.7310867, 15.0043297, 0, 0)\<rparr>"

definition bessel_18 :: dataset where
  "bessel_18 = \<lparr>tanf2 = 0.004659, t0 = 1743245925.5, b_d = (3.56602, 0.015539, - 0.000001, 0),
     b_x = (- 0.40287, 0.5094122, 0.0000415, - 0.0000085), b_y = (0.965695, 0.2788348, - 0.0000723, - 0.0000048),
     l1 = (0.535766, - 0.0000533, - 0.0000129, 0), deltat = 74.5,
     l2 = (- 0.01032, - 0.000053, - 0.0000128, 0), tanf1 = 0.0046823,
     mu = (343.831665, 15.0043602, 0, 0)\<rparr>"

definition bessel_19 :: dataset where
  "bessel_19 = \<lparr>tanf2 = 0.0046351, t0 = 1758484725.2, b_d = (0.36472, - 0.0156, 0, 0),
     b_x = (- 0.390072, 0.4531592, 0.0000032, - 0.0000054), b_y = (- 1.001834, - 0.2521633, 0.0000456, 0.0000031),
     l1 = (0.562492, 0.0000909, - 0.0000103, 0), deltat = 74.8,
     l2 = (0.016273, 0.0000905, - 0.0000102, 0), tanf1 = 0.0046583,
     mu = (121.7819214, 15.0047703, 0, 0)\<rparr>"

definition bessel_20 :: dataset where
  "bessel_20 = \<lparr>tanf2 = 0.0047085, t0 = 1771329524.9, b_d = (- 11.8793001, 0.014049, 0.000002, 0),
     b_x = (0.321954, 0.4827224, - 0.0000314, - 0.0000064), b_y = (- 0.926971, 0.2355394, 0.0001169, - 0.0000033),
     l1 = (0.55772, - 0.0001181, - 0.0000111, 0), deltat = 75.1,
     l2 = (0.011524, - 0.0001175, - 0.0000111, 0), tanf1 = 0.0047321,
     mu = (356.5144043, 15.0019798, 0, 0)\<rparr>"

definition bessel_21 :: dataset where
  "bessel_21 = \<lparr>tanf2 = 0.0045911, t0 = 1786557524.6, b_d = (14.79667, - 0.012065, - 0.000003, 0),
     b_x = (0.475514, 0.5189249, - 0.0000773, - 0.000008), b_y = (0.771183, - 0.230168, - 0.0001246, 0.0000038),
     l1 = (0.537955, 0.0000939, - 0.0000121, 0), deltat = 75.4,
     l2 = (- 0.008142, 0.0000935, - 0.0000121, 0), tanf1 = 0.0046141,
     mu = (88.7477875, 15.0030899, 0, 0)\<rparr>"

definition bessel_22 :: dataset where
  "bessel_22 = \<lparr>tanf2 = 0.004719, t0 = 1801929524.3, b_d = (- 15.5479402, 0.012383, 0.000004, 0),
     b_x = (0.111676, 0.4664952, - 0.0000337, - 0.0000053), b_y = (- 0.273293, 0.2031856, 0.0001025, - 0.0000025),
     l1 = (0.571928, - 0.0000653, - 0.0000101, 0), deltat = 75.7,
     l2 = (0.025662, - 0.000065, - 0.00001, 0), tanf1 = 0.0047426,
     mu = (56.4930687, 15.0005102, 0, 0)\<rparr>"

definition bessel_23 :: dataset where
  "bessel_23 = \<lparr>tanf2 = 0.0045834, t0 = 1817200724, b_d = (17.7624702, - 0.010181, - 0.000004, 0),
     b_x = (- 0.019772, 0.5447123, - 0.0000446, - 0.0000092), b_y = (0.160061, - 0.2111582, - 0.0001217, 0.0000038),
     l1 = (0.530596, 0.0000138, - 0.0000128, 0), deltat = 76.0,
     l2 = (- 0.015464, 0.0000137, - 0.0000128, 0), tanf1 = 0.0046064,
     mu = (328.4225464, 15.0021, 0, 0)\<rparr>"

definition bessel_24 :: dataset where
  "bessel_24 = \<lparr>tanf2 = 0.0047264, t0 = 1832511523.7, b_d = (- 18.7282505, 0.010074, 0.000005, 0),
     b_x = (- 0.205283, 0.474257, - 0.000039, - 0.0000053), b_y = (0.34028, 0.1738587, 0.0000968, - 0.0000021),
     l1 = (0.574117, 0.000042, - 0.0000099, 0), deltat = 76.3,
     l2 = (0.02784, 0.0000418, - 0.0000099, 0), tanf1 = 0.0047501,
     mu = (41.8912811, 14.9989595, 0, 0)\<rparr>"

definition bessel_25 :: dataset where
  "bessel_25 = \<lparr>tanf2 = 0.0045786, t0 = 1847847523.4, b_d = (20.1823101, - 0.007974, - 0.000005, 0),
     b_x = (- 0.154409, 0.5449892, - 0.0000214, - 0.0000087), b_y = (- 0.586424, - 0.1746085, - 0.0001021, 0.000003),
     l1 = (0.535237, - 0.0000859, - 0.0000123, 0), deltat = 76.6,
     l2 = (- 0.010846, - 0.0000854, - 0.0000122, 0), tanf1 = 0.0046016,
     mu = (223.3786774, 15.0010204, 0, 0)\<rparr>"

definition bessel_26 :: dataset where
  "bessel_26 = \<lparr>tanf2 = 0.0047304, t0 = 1863104323.1, b_d = (- 21.1630096, 0.007241, 0.000006, 0),
     b_x = (- 0.407444, 0.5081525, - 0.0000393, - 0.0000065), b_y = (0.981055, 0.1455283, 0.0000921, - 0.000002),
     l1 = (0.562666, 0.0001189, - 0.0000109, 0), deltat = 76.9,
     l2 = (0.016446, 0.0001183, - 0.0000108, 0), tanf1 = 0.0047541,
     mu = (72.6928863, 14.9976301, 0, 0)\<rparr>"

definition bessel_27 :: dataset where
  "bessel_27 = \<lparr>tanf2 = 0.0045819, t0 = 1875931122.8, b_d = (23.1593208, 0.002591, - 0.000005, 0),
     b_x = (- 0.010799, 0.5247606, 0.0000104, - 0.0000065), b_y = (1.295413, - 0.0176365, - 0.0002057, 0.0000003),
     l1 = (0.556662, - 0.0001027, - 0.0000104, 0), deltat = 77.2,
     l2 = (0.010472, - 0.0001022, - 0.0000103, 0), tanf1 = 0.0046048,
     mu = (240.0355835, 14.9991999, 0, 0)\<rparr>"

definition bessel_28 :: dataset where
  "bessel_28 = \<lparr>tanf2 = 0.0045765, t0 = 1878479922.8, b_d = (22.0024509, - 0.005423, - 0.000005, 0),
     b_x = (- 0.137347, 0.5252634, - 0.0000096, - 0.0000071), b_y = (- 1.4271491, - 0.1280417, - 0.0000769, 0.0000019),
     l1 = (0.548756, - 0.0001269, - 0.000011, 0), deltat = 77.2,
     l2 = (0.002605, - 0.0001263, - 0.0000109, 0), tanf1 = 0.0045994,
     mu = (58.6025696, 15.0000095, 0, 0)\<rparr>"

definition bessel_29 :: dataset where
  "bessel_29 = \<lparr>tanf2 = 0.0047209, t0 = 1891177122.5, b_d = (- 22.4454498, - 0.005054, 0.000006, 0),
     b_x = (- 0.063833, 0.5766353, - 0.0000027, - 0.0000095), b_y = (- 1.059666, - 0.0140165, 0.0002295, 0.0000001),
     l1 = (0.540642, 0.0000699, - 0.0000128, 0), deltat = 77.5,
     l2 = (- 0.005469, 0.0000695, - 0.0000128, 0), tanf1 = 0.0047446,
     mu = (47.3098488, 14.9971705, 0, 0)\<rparr>"

definition bessel_30 :: dataset where
  "bessel_30 = \<lparr>tanf2 = 0.004589, t0 = 1906523922.2, b_d = (22.0613003, 0.005581, - 0.000005, 0),
     b_x = (- 0.269391, 0.5056371, 0.0000182, - 0.0000057), b_y = (0.551977, 0.021015, - 0.0001586, - 0.0000002),
     l1 = (0.56615, - 0.000013, - 0.0000097, 0), deltat = 77.8,
     l2 = (0.019912, - 0.0000129, - 0.0000097, 0), tanf1 = 0.004612,
     mu = (270.5398254, 14.9996996, 0, 0)\<rparr>"

definition bessel_31 :: dataset where
  "bessel_31 = \<lparr>tanf2 = 0.0047125, t0 = 1921820321.9, b_d = (- 20.7609997, - 0.007989, 0.000005, 0),
     b_x = (0.04415, 0.5787798, 0.0000177, - 0.0000098), b_y = (- 0.39266, - 0.0551891, 0.0001744, 0.0000008),
     l1 = (0.538213, - 0.0000379, - 0.000013, 0), deltat = 78.1,
     l2 = (- 0.007885, - 0.0000377, - 0.000013, 0), tanf1 = 0.0047361,
     mu = (288.2745972, 14.9983597, 0, 0)\<rparr>"

definition bessel_32 :: dataset where
  "bessel_32 = \<lparr>tanf2 = 0.0045978, t0 = 1937113121.5, b_d = (20.1591492, 0.008339, - 0.000005, 0),
     b_x = (- 0.114781, 0.5112392, 0.0000072, - 0.000006), b_y = (- 0.211248, 0.057933, - 0.0001182, - 0.0000006),
     l1 = (0.562405, 0.0000806, - 0.00001, 0), deltat = 78.5,
     l2 = (0.016186, 0.0000802, - 0.00001, 0), tanf1 = 0.0046208,
     mu = (285.8511353, 15.0006199, 0, 0)\<rparr>"

definition bessel_33 :: dataset where
  "bessel_33 = \<lparr>tanf2 = 0.0047025, t0 = 1952456321.2, b_d = (- 18.3368092, - 0.010534, 0.000004, 0),
     b_x = (- 0.019869, 0.550944, 0.0000366, - 0.0000082), b_y = (0.314971, - 0.0890652, 0.0001046, 0.0000012),
     l1 = (0.547774, - 0.0001068, - 0.000012, 0), deltat = 78.8,
     l2 = (0.001628, - 0.0001063, - 0.0000119, 0), tanf1 = 0.004726,
     mu = (138.8939819, 14.9997597, 0, 0)\<rparr>"

definition bessel_34 :: dataset where
  "bessel_34 = \<lparr>tanf2 = 0.0046079, t0 = 1967720320.9, b_d = (17.5929108, 0.010694, - 0.000004, 0),
     b_x = (- 0.07436, 0.5359546, 0.0000052, - 0.0000074), b_y = (- 0.965451, 0.0954058, - 0.0000702, - 0.0000013),
     l1 = (0.548853, 0.0001272, - 0.0000112, 0), deltat = 79.1,
     l2 = (0.002702, 0.0001266, - 0.0000112, 0), tanf1 = 0.004631,
     mu = (15.8891001, 15.0017405, 0, 0)\<rparr>"

definition bessel_35 :: dataset where
  "bessel_35 = \<lparr>tanf2 = 0.0046906, t0 = 1983074320.5, b_d = (- 15.2399197, - 0.012633, 0.000003, 0),
     b_x = (0.449239, 0.5120192, 0.000017, - 0.0000064), b_y = (0.990836, - 0.1128683, 0.0000452, 0.0000013),
     l1 = (0.562605, - 0.0001127, - 0.0000106, 0), deltat = 79.5,
     l2 = (0.016385, - 0.0001121, - 0.0000106, 0), tanf1 = 0.0047141,
     mu = (274.1191101, 15.0012302, 0, 0)\<rparr>"

definition bessel_36 :: dataset where
  "bessel_36 = \<lparr>tanf2 = 0.0046574, t0 = 1995818320.3, b_d = (4.0936799, 0.015719, - 0.000001, 0),
     b_x = (- 0.318851, 0.5554244, 0.0000227, - 0.0000094), b_y = (0.924667, 0.175661, - 0.0000801, - 0.0000029),
     l1 = (0.534943, 0.0000276, - 0.0000129, 0), deltat = 79.7,
     l2 = (- 0.011139, 0.0000275, - 0.0000129, 0), tanf1 = 0.0046807,
     mu = (88.9280777, 15.0044498, 0, 0)\<rparr>"

definition bessel_37 :: dataset where
  "bessel_37 = \<lparr>tanf2 = 0.0046375, t0 = 2011096719.9, b_d = (- 0.33982, - 0.015845, 0, 0),
     b_x = (- 0.309996, 0.4815448, 0.0000087, - 0.0000054), b_y = (- 1.117005, - 0.1545441, 0.0000478, 0.0000017),
     l1 = (0.568897, 0.0000318, - 0.0000098, 0), deltat = 80.1,
     l2 = (0.022646, 0.0000316, - 0.0000097, 0), tanf1 = 0.0046607,
     mu = (31.9424591, 15.0047998, 0, 0)\<rparr>"

definition bessel_38 :: dataset where
  "bessel_38 = \<lparr>tanf2 = 0.0046718, t0 = 2026461519.6, b_d = (- 0.05513, 0.016042, 0, 0),
     b_x = (- 0.259609, 0.5481629, 0.0000234, - 0.000009), b_y = (0.220752, 0.175579, - 0.000008, - 0.0000028),
     l1 = (0.538631, - 0.0000665, - 0.0000127, 0), deltat = 80.4,
     l2 = (- 0.007469, - 0.0000662, - 0.0000126, 0), tanf1 = 0.0046952,
     mu = (328.1391296, 15.0044002, 0, 0)\<rparr>"

definition bessel_39 :: dataset where
  "bessel_39 = \<lparr>tanf2 = 0.004623, t0 = 2041689519.2, b_d = (3.97191, - 0.015534, - 0.000001, 0),
     b_x = (- 0.280906, 0.5028342, - 0.0000107, - 0.0000063), b_y = (- 0.324339, - 0.1577845, - 0.0000008, 0.0000019),
     l1 = (0.557801, 0.0001188, - 0.0000106, 0), deltat = 80.8,
     l2 = (0.011605, 0.0001182, - 0.0000105, 0), tanf1 = 0.0046461,
     mu = (60.9496994, 15.0049, 0, 0)\<rparr>"

definition bessel_40 :: dataset where
  "bessel_40 = \<lparr>tanf2 = 0.0046861, t0 = 2057093918.9, b_d = (- 4.2733402, 0.01592, 0.000001, 0),
     b_x = (0.079469, 0.5205739, 0.000005, - 0.0000073), b_y = (- 0.432832, 0.1630945, 0.0000532, - 0.0000022),
     l1 = (0.552623, - 0.0001219, - 0.0000114, 0), deltat = 81.1,
     l2 = (0.006453, - 0.0001213, - 0.0000114, 0), tanf1 = 0.0047095,
     mu = (162.3961334, 15.0038996, 0, 0)\<rparr>"

definition bessel_41 :: dataset where
  "bessel_41 = \<lparr>tanf2 = 0.0046097, t0 = 2072311118.5, b_d = (8.0177097, - 0.014783, - 0.000002, 0),
     b_x = (0.134282, 0.5377735, - 0.000036, - 0.0000081), b_y = (0.349009, - 0.1584651, - 0.0000595, 0.0000023),
     l1 = (0.54192, 0.0001103, - 0.0000119, 0), deltat = 81.5,
     l2 = (- 0.004197, 0.0001098, - 0.0000118, 0), tanf1 = 0.0046328,
     mu = (210.0299835, 15.0046396, 0, 0)\<rparr>"

definition bessel_42 :: dataset where
  "bessel_42 = \<lparr>tanf2 = 0.0046995, t0 = 2087701118.2, b_d = (- 8.4996901, 0.015281, 0.000002, 0),
     b_x = (0.444043, 0.4934011, - 0.0000201, - 0.0000058), b_y = (- 1.114319, 0.1445403, 0.0000997, - 0.0000016),
     l1 = (0.568192, - 0.0000906, - 0.0000102, 0), deltat = 81.8,
     l2 = (0.021945, - 0.0000901, - 0.0000102, 0), tanf1 = 0.0047231,
     mu = (251.8083954, 15.0030003, 0, 0)\<rparr>"

definition bessel_43 :: dataset where
  "bessel_43 = \<lparr>tanf2 = 0.0045789, t0 = 2100423517.9, b_d = (19.8942108, - 0.008537, - 0.000005, 0),
     b_x = (0.090016, 0.5788221, - 0.000018, - 0.0000099), b_y = (- 1.447814, - 0.0733682, - 0.0000547, 0.0000012),
     l1 = (0.530436, - 0.0000306, - 0.0000128, 0), deltat = 82.1,
     l2 = (- 0.015624, - 0.0000304, - 0.0000127, 0), tanf1 = 0.0046019,
     mu = (343.361908, 15.0012398, 0, 0)\<rparr>"

definition bessel_44 :: dataset where
  "bessel_44 = \<lparr>tanf2 = 0.0045987, t0 = 2102950717.9, b_d = (11.74119, - 0.013646, - 0.000002, 0),
     b_x = (0.036446, 0.5632887, - 0.000028, - 0.0000096), b_y = (1.1103849, - 0.1496972, - 0.0001354, 0.0000025),
     l1 = (0.531908, 0.0000445, - 0.0000128, 0), deltat = 82.1,
     l2 = (- 0.014158, 0.0000443, - 0.0000127, 0), tanf1 = 0.0046217,
     mu = (74.2591782, 15.0040302, 0, 0)\<rparr>"

definition bessel_45 :: dataset where
  "bessel_45 = \<lparr>tanf2 = 0.0047303, t0 = 2115712717.6, b_d = (- 20.8301106, 0.007969, 0.000006, 0),
     b_x = (- 0.013442, 0.5071025, - 0.0000215, - 0.0000058), b_y = (1.151491, 0.0475625, 0.0000875, - 0.0000005),
     l1 = (0.572082, 0.0000633, - 0.0000101, 0), deltat = 82.4,
     l2 = (0.025815, 0.000063, - 0.0000101, 0), tanf1 = 0.004754,
     mu = (327.5504456, 14.9978304, 0, 0)\<rparr>"

definition bessel_46 :: dataset where
  "bessel_46 = \<lparr>tanf2 = 0.0045764, t0 = 2131066717.2, b_d = (21.7824306, - 0.006046, - 0.000005, 0),
     b_x = (0.141501, 0.5635997, 0.0000001, - 0.0000087), b_y = (- 0.733707, - 0.0318217, - 0.0001131, 0.0000004),
     l1 = (0.538383, - 0.0001101, - 0.000012, 0), deltat = 82.8,
     l2 = (- 0.007716, - 0.0001096, - 0.0000119, 0), tanf1 = 0.0045993,
     mu = (223.5501251, 15.0002298, 0, 0)\<rparr>"

definition all_bessel :: "dataset list" where
  "all_bessel = [bessel_0, bessel_1, bessel_2, bessel_3, bessel_4, bessel_5,
     bessel_6, bessel_7, bessel_8, bessel_9, bessel_10, bessel_11,
     bessel_12, bessel_13, bessel_14, bessel_15, bessel_16, bessel_17,
     bessel_18, bessel_19, bessel_20, bessel_21, bessel_22, bessel_23,
     bessel_24, bessel_25, bessel_26, bessel_27, bessel_28, bessel_29,
     bessel_30, bessel_31, bessel_32, bessel_33, bessel_34, bessel_35,
     bessel_36, bessel_37, bessel_38, bessel_39, bessel_40, bessel_41,
     bessel_42, bessel_43, bessel_44, bessel_45, bessel_46]"

text \<open>
  \<^verbatim>\<open>getEclipseDefinition(t)\<close>: the table is scanned from index 0 and the
  first entry with \<^verbatim>\<open>t0 + 4 * 3600 > t\<close> is returned; \<^verbatim>\<open>null\<close>
  (here \<open>None\<close>) when the scan runs off the end. The table is a parameter, so
  that the function can be studied on any table; the program applies it to
  \<open>all_bessel\<close>.
\<close>

fun getEclipseDefinition :: "dataset list \<Rightarrow> real \<Rightarrow> dataset option" where
  "getEclipseDefinition [] t = None"
| "getEclipseDefinition (b # bs) t =
     (if t0 b + 4 * 3600 > t then Some b else getEclipseDefinition bs t)"

text \<open>
  \<^verbatim>\<open>var bessel = getEclipseDefinition(this.getCurrentTime())\<close> is executed
  once, by \<^verbatim>\<open>initialize\<close>; the variable is never assigned again.
\<close>

definition initialize_bessel :: "dataset list \<Rightarrow> real \<Rightarrow> dataset option" where
  "initialize_bessel tbl start = getEclipseDefinition tbl start"

text \<open>
  \<^verbatim>\<open>getElements(t1)\<close> reads \<^verbatim>\<open>bessel.t0\<close> first. When
  \<^verbatim>\<open>bessel\<close> is \<^verbatim>\<open>null\<close> that read throws a TypeError, which
  nothing catches.
\<close>

datatype error = TypeError

definition poly :: "real \<Rightarrow> cubic \<Rightarrow> real" where
  "poly t val = (case val of (v0, v1, v2, v3) \<Rightarrow> v0 + t * v1 + t * t * v2 + t * t * t * v3)"

definition getElements :: "dataset option \<Rightarrow> real \<Rightarrow> error + elements" where
  "getElements bessel t1 =
     (case bessel of
        None \<Rightarrow> Inl TypeError
      | Some b \<Rightarrow>
          (let t = (t1 - t0 b) / 3600 in
           Inr \<lparr>tanf2 = tanf2 b, t0 = t0 b, b_d = poly t (b_d b), b_x = poly t (b_x b),
                b_y = poly t (b_y b), l1 = poly t (l1 b), deltat = deltat b,
                l2 = poly t (l2 b), tanf1 = tanf1 b, mu = poly t (mu b)\<rparr>))"

text \<open>
  The part of \<^verbatim>\<open>update\<close> that produces the elements of a tick:
  \<^verbatim>\<open>getElements(now)\<close> on the dataset chosen by \<^verbatim>\<open>initialize\<close>, then
  the marker \<^verbatim>\<open>deltat = -1\<close> when \<^verbatim>\<open>Math.abs(now - elements.t0)\<close>
  exceeds four hours.
\<close>

definition update_elements :: "dataset option \<Rightarrow> real \<Rightarrow> error + elements" where
  "update_elements bessel now =
     (case getElements bessel now of
        Inl e \<Rightarrow> Inl e
      | Inr els \<Rightarrow>
          Inr (if \<bar>now - t0 els\<bar> > 4 * 3600 then els\<lparr>deltat := - 1\<rparr> else els))"

text \<open>A run of the layer as far as the elements go: one initialisation, then ticks.\<close>

definition elements_at :: "dataset list \<Rightarrow> real \<Rightarrow> real \<Rightarrow> error + elements" where
  "elements_at tbl start now = update_elements (initialize_bessel tbl start) now"

text \<open>
  The selector as the specification words it: the earliest-indexed entry whose
  closed window \<open>[t0 - 4h, t0 + 4h]\<close> (\<open>in_window\<close>) contains the instant,
  none when there is no such entry. \<open>window_ho\<close> is the half-open window
  that the strict comparison of the code induces.
\<close>

definition in_window :: "dataset \<Rightarrow> real \<Rightarrow> bool" where
  "in_window b now \<longleftrightarrow> t0 b - 4 * 3600 \<le> now \<and> now \<le> t0 b + 4 * 3600"

definition select_spec :: "dataset list \<Rightarrow> real \<Rightarrow> dataset option" where
  "select_spec tbl now = find (\<lambda>b. in_window b now) tbl"

definition window_ho :: "real \<Rightarrow> dataset \<Rightarrow> bool" where
  "window_ho now b \<longleftrightarrow> t0 b - 4 * 3600 \<le> now \<and> now < t0 b + 4 * 3600"

section \<open>The fragment shader\<close>

text \<open>
  \<^verbatim>\<open>fragmentSrc\<close> is the same program in \<^verbatim>\<open>SunLayer2.js\<close> and in the
  older copy of the layer. Its \<^verbatim>\<open>main\<close> is one straight-line function;
  the model cuts it into its consecutive blocks and composes them again in
  \<open>main\<close>. GLSL floats are idealised as real numbers. The uniforms
  \<^verbatim>\<open>u_tanf1 \<dots> u_t0\<close> are the fields of the elements of the tick and
  \<^verbatim>\<open>u_fEquation\<close>, \<^verbatim>\<open>u_fDeclination\<close>, \<^verbatim>\<open>u_fLocalTime\<close> those
  of the situation. The texture read
  \<^verbatim>\<open>texture2D(u_cityLights, v_cityLightPos)\<close> is an input of the model.
\<close>

record situation =
  fLocalTime :: real
  fDeclination :: real
  fEquation :: real

record vec4 =
  vec_x :: real
  vec_y :: real
  vec_z :: real
  vec_w :: real

text \<open>
  The block under \<^verbatim>\<open>if (d < L1)\<close>, which yields \<^verbatim>\<open>obs\<close> and
  \<^verbatim>\<open>overrideObs\<close>. The quotient \<^verbatim>\<open>(L1 - d) / (L1 + L2)\<close> has no
  defined value in GLSL when \<^verbatim>\<open>L1 + L2\<close> is zero; the model returns
  \<open>None\<close> there instead of the \<open>0\<close> that division by zero has in HOL.
\<close>

definition shadow :: "real \<Rightarrow> real \<Rightarrow> real \<Rightarrow> real \<Rightarrow> (real \<times> real) option" where
  "shadow u_obscureFactor L1 L2 d0 =
     (if d0 < L1 then
        (let (d, overrideObs) = (if d0 < \<bar>L2\<bar> then (\<bar>L2\<bar>, 1) else (d0, 0))
         in if L1 + L2 = 0 then None
            else
              (let obs = (L1 - d) / (L1 + L2);
                   cutoff = 0.95
               in Some (obs,
                    if obs > cutoff
                    then (obs - cutoff) * (1 - cutoff * u_obscureFactor) / (1 - cutoff)
                           + cutoff * u_obscureFactor
                    else overrideObs)))
      else Some (0, 0))"

text \<open>
  The block under \<^verbatim>\<open>if (u_deltat > 0.)\<close>; \<open>lat\<close> and \<open>lng\<close> are
  \<^verbatim>\<open>v_latlng.x\<close> and \<^verbatim>\<open>v_latlng.y\<close>. \<open>shadow_geometry\<close> is its
  first part, the values of \<^verbatim>\<open>L1\<close>, \<^verbatim>\<open>L2\<close> and
  \<^verbatim>\<open>d = sqrt(d2)\<close> at the sample.
\<close>

definition shadow_geometry :: "elements \<Rightarrow> real \<Rightarrow> real \<Rightarrow> real \<times> real \<times> real" where
  "shadow_geometry u lat lng =
     (let dr = b_d u * 3.1415926 / 180;
          lng1 = lng + 1.002738 * (15 * deltat u) / 3600;
          H = (mu u + lng1) * 3.1415926 / 180;
          latr = lat * 3.1415926 / 180;
          X = cos latr * sin H;
          Y = sin latr * cos dr - cos latr * sin dr * cos H;
          Z = sin latr * sin dr - cos latr * cos dr * cos H;
          d2 = (b_x u - X) * (b_x u - X) + (b_y u - Y) * (b_y u - Y);
          L1 = l1 u - Z * tanf1 u;
          L2 = l2 u - Z * tanf2 u
      in (L1, L2, sqrt d2))"

definition eclipse_term :: "elements \<Rightarrow> real \<Rightarrow> real \<Rightarrow> real \<Rightarrow> (real \<times> real) option" where
  "eclipse_term u u_obscureFactor lat lng =
     (if deltat u > 0 then
        (case shadow_geometry u lat lng of (L1, L2, d) \<Rightarrow> shadow u_obscureFactor L1 L2 d)
      else Some (0, 0))"

text \<open>The solar altitude, up to \<^verbatim>\<open>float fAltitude = asin(t)\<close>.\<close>

definition fAltitude :: "situation \<Rightarrow> real \<Rightarrow> real \<Rightarrow> real" where
  "fAltitude sit lat lng =
     (let fLatitude = lat * 3.1415926 / 180;
          fLongitude = lng * 3.1415926 / 180;
          fDifference = ((fLongitude * 180 / 3.1415926) * 4) / 60;
          fSolarTime = fLocalTime sit + fEquation sit + fDifference;
          fHourAngle = (15 * (fSolarTime - 12)) * (3.1415926 / 180);
          cc = cos (fDeclination sit) * cos fLatitude;
          t = sin (fDeclination sit) * sin fLatitude + cc * cos fHourAngle;
          t1 = (if t > 1 then 1 else if t < - 1 then - 1 else t)
      in arcsin t1)"

text \<open>The twilight blend of \<^verbatim>\<open>obs\<close>; \<open>blend\<close> is the expression of its
  middle branch.\<close>

definition blend :: "real \<Rightarrow> real \<Rightarrow> real" where
  "blend obs alt = 1 - (1 - obs) * (1 - (0.018 - alt) / 0.036)"

definition twilight :: "real \<Rightarrow> real \<Rightarrow> real" where
  "twilight obs alt =
     (if alt < - 0.018 then 1 else if alt < 0.018 then blend obs alt else obs)"

text \<open>\<^verbatim>\<open>if (fAltitude < 0.) { overrideObs = 0.; }\<close>\<close>

definition night_override :: "real \<Rightarrow> real \<Rightarrow> real" where
  "night_override overrideObs alt = (if alt < 0 then 0 else overrideObs)"

text \<open>\<^verbatim>\<open>if (obs > 1.) { obs = 1.; } else if (obs < 0.) { obs = 0.; }\<close>\<close>

definition clamp_obs :: "real \<Rightarrow> real" where
  "clamp_obs obs = (if obs > 1 then 1 else if obs < 0 then 0 else obs)"

text \<open>The last block: the city lights and \<^verbatim>\<open>gl_FragColor\<close>.\<close>

definition fragColor :: "real \<Rightarrow> real \<Rightarrow> real \<times> real \<times> real \<Rightarrow> real \<Rightarrow> real \<Rightarrow> vec4" where
  "fragColor u_obscureFactor u_cityLightsEnabled nightLight obs overrideObs =
     (if obs > 0.90 \<and> u_cityLightsEnabled > 0 then
        (let lightsAmnt = (obs - 0.90) * 7.0;
             lum = (case nightLight of (nx, ny, nz) \<Rightarrow> ((nx + ny + nz) / 3 - 0.1) * lightsAmnt)
         in \<lparr>vec_x = lum, vec_y = lum, vec_z = lum,
             vec_w = max overrideObs (u_obscureFactor * obs)\<rparr>)
      else \<lparr>vec_x = 0, vec_y = 0, vec_z = 0,
            vec_w = max overrideObs (u_obscureFactor * obs)\<rparr>)"

text \<open>The shader from \<^verbatim>\<open>fAltitude\<close> on, given the \<^verbatim>\<open>obs\<close> and
  \<^verbatim>\<open>overrideObs\<close> that the eclipse block left.\<close>

definition shade :: "real \<Rightarrow> real \<Rightarrow> real \<times> real \<times> real \<Rightarrow> real \<Rightarrow> real \<times> real \<Rightarrow> vec4" where
  "shade u_obscureFactor u_cityLightsEnabled nightLight alt oo =
     (case oo of (obs, overrideObs) \<Rightarrow>
        fragColor u_obscureFactor u_cityLightsEnabled nightLight
          (clamp_obs (twilight obs alt)) (night_override overrideObs alt))"

definition main :: "elements \<Rightarrow> situation \<Rightarrow> real \<Rightarrow> real \<Rightarrow> real \<times> real \<times> real
                     \<Rightarrow> real \<Rightarrow> real \<Rightarrow> vec4 option" where
  "main u sit u_obscureFactor u_cityLightsEnabled nightLight lat lng =
     map_option (shade u_obscureFactor u_cityLightsEnabled nightLight (fAltitude sit lat lng))
       (eclipse_term u u_obscureFactor lat lng)"





section \<open>The cache of the night-lights raster\<close>

text \<open>
  The state is that of one call of \<^verbatim>\<open>initialize\<close>: its closure variables
  \<^verbatim>\<open>loadedCity\<close>, \<^verbatim>\<open>canvasId\<close>, \<^verbatim>\<open>textureUpdate\<close>,
  \<^verbatim>\<open>loadedTextureInfo\<close> and \<^verbatim>\<open>generation\<close>, together with the field
  \<^verbatim>\<open>this.generation\<close> of the layer. The \<^verbatim>\<open>newCity\<close> objects are
  shared between \<^verbatim>\<open>loadedCity\<close> and the callbacks of their tiles and are
  compared by reference, so they live in a store; the address of an object
  is its \<^verbatim>\<open>id\<close>, which \<^verbatim>\<open>canvasId\<close> makes unique among the objects
  that are ever stored or captured. The canvas of a city has the same address.
  What the code does to the outside (canvases created, images requested and
  drawn, textures bound) and the calls of the deferred continuation are
  recorded in \<open>trace\<close>, oldest first.
\<close>

record textureInfo =
  u_tl :: "real \<times> real"
  u_tl_scale :: "real \<times> real"

record footprint =
  width :: nat
  height :: nat
  xOff :: int
  yOff :: int
  zoom :: nat

text \<open>
  \<^verbatim>\<open>onceLoaded\<close> is either absent or the closure
  \<^verbatim>\<open>simpleBindShim(this, loadData)\<close>; every closure stored there is this
  same call, so the slot is a truth value.
\<close>

record city = footprint +
  city_id :: nat
  pending :: int
  city_textureInfo :: textureInfo
  onceLoaded :: bool

datatype event =
    CreateCanvas nat nat nat
  | GetCityLightsImage nat nat nat nat int int
  | DrawImage nat nat nat
  | BindTexture nat
  | CallOnceLoaded nat

record cache_state =
  loadedCity :: "nat option"
  cities :: "nat \<rightharpoonup> city"
  canvasId :: nat
  textureUpdate :: "nat option"
  loadedTextureInfo :: "textureInfo option"
  generation :: nat
  this_generation :: nat
  trace :: "event list"

text \<open>
  What \<^verbatim>\<open>loadData\<close> reads from the layer and the map when it runs:
  \<^verbatim>\<open>this.map\<close> (present or not), the zoom, the size of the canvas, the
  world point of the top left corner as the projection returns it, and
  \<^verbatim>\<open>resolutionScale\<close>.
\<close>

record view =
  has_map :: bool
  map_zoom :: nat
  canvas_width :: nat
  canvas_height :: nat
  topLeft :: "real \<times> real"
  resolutionScale :: real

definition init_state :: "nat \<Rightarrow> cache_state" where
  "init_state g = \<lparr>loadedCity = None, cities = Map.empty, canvasId = 0, textureUpdate = None,
                    loadedTextureInfo = None, generation = g, this_generation = g, trace = []\<rparr>"

text \<open>The handler of \<^verbatim>\<open>webglcontextlost\<close>.\<close>

definition contextlost :: "cache_state \<Rightarrow> cache_state" where
  "contextlost s = s\<lparr>this_generation := this_generation s + 1\<rparr>"

text \<open>\<^verbatim>\<open>newCity.is_current\<close>\<close>

definition is_current :: "cache_state \<Rightarrow> bool" where
  "is_current s \<longleftrightarrow> this_generation s = generation s"

definition centerCoord :: "real \<Rightarrow> real \<Rightarrow> real" where
  "centerCoord v scale = (of_int \<lfloor>v * scale\<rfloor> + 0.5) / scale"

text \<open>
  \<^verbatim>\<open>for (cWidth = 128; cWidth < bound; cWidth *= 2) {}\<close>, started at 128 by
  its caller. The test \<open>0 < c\<close> is not in the source: it makes the function
  total on arguments that the loop never sees.
\<close>

function cSize :: "real \<Rightarrow> nat \<Rightarrow> nat" where
  "cSize bound c = (if 0 < c \<and> real c < bound then cSize bound (c * 2) else c)"
  by pat_completeness auto
termination
proof (relation "measure (\<lambda>(bound, c). nat \<lceil>bound\<rceil> - c)")
  show "wf (measure (\<lambda>(bound, c). nat \<lceil>bound\<rceil> - c))" by simp
next
  fix bound :: real and c :: nat
  assume "0 < c \<and> real c < bound"
  then have "0 < c" and "int c < \<lceil>bound\<rceil>" by (simp_all add: less_ceiling_iff)
  then show "((bound, c * 2), (bound, c)) \<in> measure (\<lambda>(bound, c). nat \<lceil>bound\<rceil> - c)"
    by simp
qed

declare cSize.simps [simp del]

text \<open>The remainder of JavaScript's \<^verbatim>\<open>%\<close> on integers: it truncates towards zero.\<close>

definition js_rem :: "int \<Rightarrow> int \<Rightarrow> int" where
  "js_rem a b = sgn a * (\<bar>a\<bar> mod \<bar>b\<bar>)"

text \<open>\<^verbatim>\<open>dobindTexture(canvas, newCity)\<close>\<close>

definition dobindTexture :: "nat \<Rightarrow> cache_state \<Rightarrow> cache_state" where
  "dobindTexture cid s =
     (let s1 = (if loadedCity s = Some cid then
                  (case cities s cid of
                     None \<Rightarrow> s
                   | Some c \<Rightarrow> s\<lparr>loadedTextureInfo := Some (city_textureInfo c),
                                trace := trace s @ [BindTexture cid]\<rparr>)
                else s)
      in s1\<lparr>textureUpdate := None\<rparr>)"

text \<open>
  The requests of the two nested loops over \<^verbatim>\<open>x\<close> and \<^verbatim>\<open>y\<close>: for each
  image the canvas it belongs to, its column and row there, and the zoom,
  column and row of the tile in its URL.
\<close>

definition tile_requests :: "nat \<Rightarrow> nat \<Rightarrow> nat \<Rightarrow> nat \<Rightarrow> int \<Rightarrow> int \<Rightarrow> event list" where
  "tile_requests cid xMax yMax z xO yO =
     concat (map (\<lambda>x. map (\<lambda>y.
        GetCityLightsImage cid x y z (js_rem (int x + xO) (2 ^ z))
          (2 ^ z - 1 - js_rem (int y + yO) (2 ^ z))) [0..<yMax]) [0..<xMax])"

text \<open>
  \<^verbatim>\<open>loadData\<close>. Its first half fills the two vertex buffers and touches no
  variable of the cache; of it the model keeps what the second half reads,
  the corner \<^verbatim>\<open>tl\<close> after clamping and centring. \<open>view_tl\<close> is that
  corner and \<open>view_footprint\<close> the five fields that \<^verbatim>\<open>newCity\<close> is
  created with.
\<close>

definition view_tl :: "view \<Rightarrow> real \<times> real" where
  "view_tl v =
     (let scale = (2::real) ^ map_zoom v;
          rs = resolutionScale v;
          tl_y0 = (if snd (topLeft v) \<le> 0 then 0 else snd (topLeft v))
      in (centerCoord (fst (topLeft v)) (rs * scale), centerCoord tl_y0 (rs * scale)))"

definition view_footprint :: "view \<Rightarrow> footprint" where
  "view_footprint v =
     (let scale = (2::real) ^ map_zoom v;
          rs = resolutionScale v;
          cWidth = cSize (real (canvas_width v) / rs + 255) 128;
          cHeight = cSize (real (canvas_height v) / rs + 255) 128
      in \<lparr>width = cWidth * 2, height = cHeight * 2,
          xOff = \<lfloor>fst (view_tl v) * scale / 256\<rfloor>,
          yOff = \<lfloor>snd (view_tl v) * scale / 256\<rfloor>,
          zoom = map_zoom v\<rparr>)"

text \<open>The comparison that gives \<^verbatim>\<open>canSkipCanvasLoad\<close>.\<close>

definition same_key :: "city \<Rightarrow> footprint \<Rightarrow> bool" where
  "same_key c n \<longleftrightarrow> width c = width n \<and> height c = height n \<and> xOff c = xOff n \<and>
                    yOff c = yOff n \<and> zoom c = zoom n"

text \<open>
  The block of \<^verbatim>\<open>loadData\<close> that starts a load, the \<^verbatim>\<open>else\<close> branch
  of the test \<^verbatim>\<open>loadedCity && loadedCity.pending > 0\<close>: a new canvas,
  one request per tile, \<^verbatim>\<open>loadedCity = newCity\<close>, and the bind of the very
  first canvas.
\<close>

definition start_load :: "view \<Rightarrow> cache_state \<Rightarrow> cache_state" where
  "start_load v s =
     (let scale = (2::real) ^ map_zoom v;
          rs = resolutionScale v;
          n = view_footprint v;
          cid = canvasId s + 1;
          xMax = nat \<lceil>(real (canvas_width v) / rs + 255) / 256\<rceil>;
          yMax = nat \<lceil>(real (canvas_height v) / rs + 255) / 256\<rceil>;
          newTextureInfo =
            \<lparr>u_tl = (256 * of_int (xOff n) / scale, 256 * of_int (yOff n) / scale),
             u_tl_scale = (scale / real (width n), scale / real (height n))\<rparr>;
          newCity =
            \<lparr>width = width n, height = height n, xOff = xOff n, yOff = yOff n,
             zoom = zoom n, city_id = cid, pending = int (xMax * yMax),
             city_textureInfo = newTextureInfo, onceLoaded = False\<rparr>;
          s1 = s\<lparr>canvasId := cid,
                 cities := (cities s)(cid \<mapsto> newCity),
                 loadedCity := Some cid,
                 trace := trace s @
                   CreateCanvas cid (width n) (height n) #
                   tile_requests cid xMax yMax (zoom n) (xOff n) (yOff n)\<rparr>
      in if loadedTextureInfo s1 = None then dobindTexture cid s1 else s1)"

text \<open>
  The object that \<^verbatim>\<open>loadedCity\<close> refers to, if there is one.
\<close>

definition loaded :: "cache_state \<Rightarrow> (nat \<times> city) option" where
  "loaded s =
     (case loadedCity s of
        None \<Rightarrow> None
      | Some l \<Rightarrow> (case cities s l of None \<Rightarrow> None | Some c \<Rightarrow> Some (l, c)))"

definition loadData :: "view \<Rightarrow> cache_state \<Rightarrow> cache_state" where
  "loadData v s =
     (if \<not> has_map v then s
      else
        (let n = view_footprint v
         in if zoom n \<le> 8 then
              (let canSkipCanvasLoad =
                     (case loaded s of None \<Rightarrow> False | Some (l, c) \<Rightarrow> same_key c n)
               in if \<not> canSkipCanvasLoad then
                    (case loaded s of
                       None \<Rightarrow> start_load v s
                     | Some (l, c) \<Rightarrow>
                         if pending c > 0
                         then s\<lparr>cities := (cities s)(l \<mapsto> c\<lparr>onceLoaded := True\<rparr>)\<rparr>
                         else start_load v s)
                  else s)
            else s))"

text \<open>
  The two completion callbacks of an image, \<^verbatim>\<open>makeCallback(newCity, canvas,
  context, x, y)\<close> for a load and \<^verbatim>\<open>makeErrorCallback(newCity, canvas)\<close>
  for a failure, as the effect of the function they return. \<open>cid\<close> is the
  address of \<^verbatim>\<open>newCity\<close>; a callback exists only for a city of the store.
  The view is that of the moment the callback runs: the continuation, when it
  is called there, is \<^verbatim>\<open>loadData\<close> on the layer as it is then.
\<close>

definition finish_load :: "view \<Rightarrow> nat \<Rightarrow> cache_state \<Rightarrow> cache_state" where
  "finish_load v cid s =
     (let s1 = s\<lparr>textureUpdate := Some cid\<rparr>
      in case cities s1 cid of
           None \<Rightarrow> s1
         | Some c \<Rightarrow>
             if onceLoaded c then
               (let s2 = loadData v (s1\<lparr>trace := trace s1 @ [CallOnceLoaded cid]\<rparr>)
                in case cities s2 cid of
                     None \<Rightarrow> s2
                   | Some c2 \<Rightarrow> s2\<lparr>cities := (cities s2)(cid \<mapsto> c2\<lparr>onceLoaded := False\<rparr>)\<rparr>)
             else s1)"

definition makeErrorCallback :: "nat \<Rightarrow> view \<Rightarrow> cache_state \<Rightarrow> cache_state" where
  "makeErrorCallback cid v s =
     (case cities s cid of
        None \<Rightarrow> s
      | Some c \<Rightarrow>
          (let s1 = s\<lparr>cities := (cities s)(cid \<mapsto> c\<lparr>pending := pending c - 1\<rparr>)\<rparr>
           in if loadedCity s1 = Some cid \<and> is_current s1 then
                if pending c - 1 \<le> 0 then finish_load v cid s1 else s1
              else s1))"

definition makeCallback :: "nat \<Rightarrow> nat \<Rightarrow> nat \<Rightarrow> view \<Rightarrow> cache_state \<Rightarrow> cache_state" where
  "makeCallback cid x y v s =
     (case cities s cid of
        None \<Rightarrow> s
      | Some c \<Rightarrow>
          (let s1 = s\<lparr>cities := (cities s)(cid \<mapsto> c\<lparr>pending := pending c - 1\<rparr>)\<rparr>
           in if loadedCity s1 = Some cid \<and> is_current s1 then
                (let s2 = s1\<lparr>trace := trace s1 @ [DrawImage cid (x * 256) (y * 256)]\<rparr>
                 in if pending c - 1 \<le> 0 then finish_load v cid s2 else s2)
              else s1))"

text \<open>
  The beginning of \<^verbatim>\<open>update\<close>, as far as the cache goes: the tests of
  \<^verbatim>\<open>this.map\<close> and of the generation, then
  \<^verbatim>\<open>if (textureUpdate) { textureUpdate(); }\<close>, where a scheduled
  \<^verbatim>\<open>textureUpdate\<close> is \<^verbatim>\<open>dobindTexture(canvas, newCity)\<close>.
\<close>

definition update_texture :: "view \<Rightarrow> cache_state \<Rightarrow> cache_state" where
  "update_texture v s =
     (if \<not> has_map v then s
      else if generation s \<noteq> this_generation s then s
      else case textureUpdate s of None \<Rightarrow> s | Some cid \<Rightarrow> dobindTexture cid s)"

text \<open>Completions of the images of one city, handled one after the other.\<close>

datatype completion = Loaded nat nat | Failed

fun complete :: "nat \<Rightarrow> view \<Rightarrow> completion \<Rightarrow> cache_state \<Rightarrow> cache_state" where
  "complete cid v (Loaded x y) s = makeCallback cid x y v s"
| "complete cid v Failed s = makeErrorCallback cid v s"

fun completions :: "nat \<Rightarrow> view \<Rightarrow> completion list \<Rightarrow> cache_state \<Rightarrow> cache_state" where
  "completions cid v [] s = s"
| "completions cid v (k # ks) s = completions cid v ks (complete cid v k s)"

definition calls :: "cache_state \<Rightarrow> nat" where
  "calls s = length (filter (\<lambda>e. case e of CallOnceLoaded _ \<Rightarrow> True | _ \<Rightarrow> False) (trace s))"

text \<open>
  The store is coherent when every object in it has an address that
  \<^verbatim>\<open>canvasId\<close> has already handed out and \<^verbatim>\<open>loadedCity\<close> refers to an
  object of the store.
\<close>

definition store_ok :: "cache_state \<Rightarrow> bool" where
  "store_ok s \<longleftrightarrow>
     dom (cities s) \<subseteq> {1..canvasId s} \<and> set_option (loadedCity s) \<subseteq> dom (cities s)"

section \<open>Concrete inputs\<close>

text \<open>
  Concrete inputs of the shader: elements of a total eclipse whose axis passes
  through the sample at latitude and longitude 0 (\<open>L1 = 1\<close>, \<open>L2 = - 1/2\<close>,
  \<open>d = 0\<close> there), and the situations of 12:00 and 22:00 UTC with declination
  and equation of time 0.
\<close>

definition overhead_total :: elements where
  "overhead_total = \<lparr>tanf2 = 0, t0 = 0, b_d = 0, b_x = 0, b_y = 0, l1 = 1, deltat = 240,
                      l2 = - (1 / 2), tanf1 = 0, mu = - 1.002738\<rparr>"


definition noon :: situation where
  "noon = \<lparr>fLocalTime = 12, fDeclination = 0, fEquation = 0\<rparr>"

definition late_evening :: situation where
  "late_evening = \<lparr>fLocalTime = 22, fDeclination = 0, fEquation = 0\<rparr>"

text \<open>
  Concrete views: a canvas of 256 by 256 pixels over the corner of the world
  at zoom 0, and the same canvas at zoom 1.
\<close>

definition small_view :: view where
  "small_view = \<lparr>has_map = True, map_zoom = 0, canvas_width = 256, canvas_height = 256,
                  topLeft = (0, 0), resolutionScale = 1\<rparr>"

definition zoomed_view :: view where
  "zoomed_view = \<lparr>has_map = True, map_zoom = 1, canvas_width = 256, canvas_height = 256,
                   topLeft = (0, 0), resolutionScale = 1\<rparr>"

text \<open>The city that \<^verbatim>\<open>loadData\<close> creates for \<open>small_view\<close> in the initial state.\<close>

definition first_city :: city where
  "first_city = \<lparr>width = 1024, height = 1024, xOff = 0, yOff = 0, zoom = 0, city_id = 1,
                  pending = 4,
                  city_textureInfo = \<lparr>u_tl = (0, 0), u_tl_scale = (1 / 1024, 1 / 1024)\<rparr>,
                  onceLoaded = False\<rparr>"

section \<open>Properties of the selector and the interpolator\<close>

lemmas bessel_defs =
  bessel_0_def bessel_1_def bessel_2_def bessel_3_def bessel_4_def bessel_5_def
  bessel_6_def bessel_7_def bessel_8_def bessel_9_def bessel_10_def bessel_11_def
  bessel_12_def bessel_13_def bessel_14_def bessel_15_def bessel_16_def bessel_17_def
  bessel_18_def bessel_19_def bessel_20_def bessel_21_def bessel_22_def bessel_23_def
  bessel_24_def bessel_25_def bessel_26_def bessel_27_def bessel_28_def bessel_29_def
  bessel_30_def bessel_31_def bessel_32_def bessel_33_def bessel_34_def bessel_35_def
  bessel_36_def bessel_37_def bessel_38_def bessel_39_def bessel_40_def bessel_41_def
  bessel_42_def bessel_43_def bessel_44_def bessel_45_def bessel_46_def

text \<open>The table of the program is strictly increasing in \<open>t0\<close>.\<close>

lemma all_bessel_increasing: "sorted_wrt (\<lambda>a b. t0 a < t0 b) all_bessel"
proof -
  have "successively (<) (map t0 all_bessel)"
    unfolding all_bessel_def by (simp add: bessel_defs)
  then have "sorted_wrt (<) (map t0 all_bessel)"
    by (simp add: successively_conv_sorted_wrt)
  then show ?thesis by (simp add: sorted_wrt_map)
qed

lemma getEclipseDefinition_find:
  "getEclipseDefinition tbl now = find (\<lambda>b. now < t0 b + 4 * 3600) tbl"
  by (induction tbl) auto

lemma find_first_open_is_first_in_window:
  assumes "sorted_wrt (\<lambda>a b. t0 a < t0 b) tbl" and "\<exists>b \<in> set tbl. window_ho now b"
  shows "find (\<lambda>b. now < t0 b + 4 * 3600) tbl = find (window_ho now) tbl"
  using assms
proof (induction tbl)
  case Nil
  then show ?case by simp
next
  case (Cons a tbl)
  show ?case
  proof (cases "now < t0 a + 4 * 3600")
    case True
    from Cons.prems obtain b where b: "b \<in> set (a # tbl)" "window_ho now b" by blast
    from b(1) Cons.prems(1) have "t0 a \<le> t0 b" by auto
    with b(2) True have "window_ho now a" by (simp add: window_ho_def)
    with True show ?thesis by simp
  next
    case False
    then have na: "\<not> window_ho now a" by (simp add: window_ho_def)
    with Cons.prems have ex: "\<exists>b \<in> set tbl. window_ho now b" by auto
    from Cons.prems(1) have "sorted_wrt (\<lambda>a b. t0 a < t0 b) tbl" by simp
    then have "find (\<lambda>b. now < t0 b + 4 * 3600) tbl = find (window_ho now) tbl"
      using ex by (rule Cons.IH)
    with False na show ?thesis by simp
  qed
qed

lemma getEclipseDefinition_Some:
  "getEclipseDefinition tbl now = Some b \<Longrightarrow> b \<in> set tbl \<and> now < t0 b + 4 * 3600"
  by (induction tbl) (auto split: if_splits)

lemma getEclipseDefinition_later:
  "getEclipseDefinition tbl start = Some b \<Longrightarrow> start \<le> now \<Longrightarrow> now < t0 b + 4 * 3600
   \<Longrightarrow> getEclipseDefinition tbl now = Some b"
  by (induction tbl) (auto split: if_splits)

lemma getEclipseDefinition_None:
  "getEclipseDefinition tbl now = None \<longleftrightarrow> (\<forall>b \<in> set tbl. t0 b + 4 * 3600 \<le> now)"
  by (induction tbl) auto

text \<open>
  C3, as the specification states it: the selector returns the
  earliest-indexed entry whose window \<open>[t0 - 4h, t0 + 4h]\<close> contains the instant
  and none when there is no such entry. The code does not do that. Before the
  first window of the table it returns the first entry, whose window does not
  contain the instant; and at the closing instant \<open>t0 + 4h\<close> of a window it
  passes on to the next entry.
\<close>

theorem select_spec_counterexample:
  "getEclipseDefinition all_bessel 0 = Some bessel_0 \<and> \<not> in_window bessel_0 0 \<and>
   select_spec all_bessel 0 = None \<and>
   in_window bessel_0 (1488121131.4 + 4 * 3600) \<and>
   getEclipseDefinition all_bessel (1488121131.4 + 4 * 3600) = Some bessel_1"
  by (simp add: all_bessel_def bessel_defs in_window_def select_spec_def)

text \<open>
  C3, amended: on a table with strictly increasing \<open>t0\<close> the selector
  returns the earliest-indexed entry with \<open>now < t0 + 4h\<close>, and none exactly
  when the instant is at or past the end of every window. Whenever some
  half-open window \<open>[t0 - 4h, t0 + 4h)\<close> contains the instant, the entry
  returned is the earliest-indexed entry whose window contains it. When no
  window contains the instant and an entry is returned all the same, the
  instant lies before the window of that entry.
\<close>

theorem getEclipseDefinition_earliest:
  assumes "sorted_wrt (\<lambda>a b. t0 a < t0 b) tbl"
  shows "getEclipseDefinition tbl now = find (\<lambda>b. now < t0 b + 4 * 3600) tbl \<and>
         (getEclipseDefinition tbl now = None \<longleftrightarrow> (\<forall>b \<in> set tbl. t0 b + 4 * 3600 \<le> now)) \<and>
         ((\<exists>b \<in> set tbl. window_ho now b) \<longrightarrow>
            getEclipseDefinition tbl now = find (window_ho now) tbl) \<and>
         ((\<forall>b \<in> set tbl. \<not> window_ho now b) \<longrightarrow>
            (\<forall>b. getEclipseDefinition tbl now = Some b \<longrightarrow> now < t0 b - 4 * 3600))"
proof (intro conjI impI allI)
  show "getEclipseDefinition tbl now = find (\<lambda>b. now < t0 b + 4 * 3600) tbl"
    by (rule getEclipseDefinition_find)
  show "getEclipseDefinition tbl now = None \<longleftrightarrow> (\<forall>b \<in> set tbl. t0 b + 4 * 3600 \<le> now)"
    by (rule getEclipseDefinition_None)
next
  assume "\<exists>b \<in> set tbl. window_ho now b"
  with assms show "getEclipseDefinition tbl now = find (window_ho now) tbl"
    unfolding getEclipseDefinition_find by (rule find_first_open_is_first_in_window)
next
  fix b
  assume none: "\<forall>b \<in> set tbl. \<not> window_ho now b"
    and "getEclipseDefinition tbl now = Some b"
  then have "b \<in> set tbl" and lt: "now < t0 b + 4 * 3600"
    by (auto dest: getEclipseDefinition_Some)
  with none have "\<not> window_ho now b" by blast
  with lt show "now < t0 b - 4 * 3600" by (simp add: window_ho_def)
qed

theorem getEclipseDefinition_earliest_witness:
  "sorted_wrt (\<lambda>a b. t0 a < t0 b) all_bessel \<and>
   (\<exists>b \<in> set all_bessel. window_ho 1503338331.2 b) \<and>
   getEclipseDefinition all_bessel 1503338331.2 = find (window_ho 1503338331.2) all_bessel \<and>
   find (window_ho 1503338331.2) all_bessel = Some bessel_1 \<and>
   list_all (\<lambda>b. \<not> window_ho 0 b) all_bessel \<and>
   getEclipseDefinition all_bessel 0 = Some bessel_0 \<and>
   0 < t0 bessel_0 - 4 * 3600"
proof -
  note s = all_bessel_increasing
  have w1: "window_ho 1503338331.2 bessel_1" "\<not> window_ho 1503338331.2 bessel_0"
    by (simp_all add: bessel_0_def bessel_1_def window_ho_def)
  then have w: "\<exists>b \<in> set all_bessel. window_ho 1503338331.2 b"
    by (auto simp: all_bessel_def)
  have f: "find (window_ho 1503338331.2) all_bessel = Some bessel_1"
    using w1 by (simp add: all_bessel_def)
  have l: "list_all (\<lambda>b. \<not> window_ho 0 b) all_bessel"
    unfolding all_bessel_def by (simp add: bessel_defs window_ho_def)
  then have n: "\<forall>b \<in> set all_bessel. \<not> window_ho 0 b"
    by (simp add: list_all_iff)
  have g: "getEclipseDefinition all_bessel 0 = Some bessel_0"
    by (simp add: all_bessel_def bessel_0_def)
  have 1: "getEclipseDefinition all_bessel 1503338331.2 = find (window_ho 1503338331.2) all_bessel"
    by (rule getEclipseDefinition_earliest [OF s, of "1503338331.2",
          THEN conjunct2, THEN conjunct2, THEN conjunct1, rule_format, OF w])
  have 2: "0 < t0 bessel_0 - 4 * 3600"
    using getEclipseDefinition_earliest [OF s, of 0,
          THEN conjunct2, THEN conjunct2, THEN conjunct2, THEN mp, OF n, THEN spec, THEN mp, OF g] .
  from s w f l g 1 2 show ?thesis by (simp only: simp_thms)
qed

text \<open>
  C4, as the specification states it: at every tick the selector is applied
  to the instant of the tick, so that the elements of the tick come from the
  dataset that the selector gives for that instant. In the code the selector
  runs once, in \<^verbatim>\<open>initialize\<close>. A layer initialised at the epoch of
  the first entry of the table and ticking at the epoch of the second one
  still interpolates from the first entry.
\<close>

theorem reselect_counterexample:
  "elements_at all_bessel 1488121131.4 1503338331.2 \<noteq>
     update_elements (getEclipseDefinition all_bessel 1503338331.2) 1503338331.2 \<and>
   map_sum id t0 (elements_at all_bessel 1488121131.4 1503338331.2) = Inr (t0 bessel_0) \<and>
   getEclipseDefinition all_bessel 1503338331.2 = Some bessel_1"
  by (simp add: elements_at_def initialize_bessel_def update_elements_def getElements_def
      all_bessel_def bessel_0_def bessel_1_def Let_def)

text \<open>
  C4, amended: the dataset is selected once, at the instant at which the
  layer is initialised, and every tick interpolates from that dataset at the
  instant of the tick. The elements agree with those of a selection made at
  the tick as long as the tick is not earlier than the initialisation and is
  before the end of the window of the dataset. A tick more than four hours
  away from the epoch of the dataset carries \<open>deltat = -1\<close>.
\<close>

theorem elements_from_initial_dataset:
  assumes "getEclipseDefinition tbl start = Some b"
  shows "elements_at tbl start now = update_elements (Some b) now \<and>
         (\<exists>els. elements_at tbl start now = Inr els \<and> t0 els = t0 b \<and>
            b_d els = poly ((now - t0 b) / 3600) (b_d b) \<and>
            deltat els = (if \<bar>now - t0 b\<bar> > 4 * 3600 then - 1 else deltat b)) \<and>
         (start \<le> now \<and> now < t0 b + 4 * 3600 \<longrightarrow>
            elements_at tbl start now = update_elements (getEclipseDefinition tbl now) now)"
proof (intro conjI impI)
  show 1: "elements_at tbl start now = update_elements (Some b) now"
    using assms by (simp add: elements_at_def initialize_bessel_def)
  show "\<exists>els. elements_at tbl start now = Inr els \<and> t0 els = t0 b \<and>
            b_d els = poly ((now - t0 b) / 3600) (b_d b) \<and>
            deltat els = (if \<bar>now - t0 b\<bar> > 4 * 3600 then - 1 else deltat b)"
    unfolding 1 by (simp add: update_elements_def getElements_def Let_def)
  assume "start \<le> now \<and> now < t0 b + 4 * 3600"
  then have "start \<le> now" and "now < t0 b + 4 * 3600" by simp_all
  with assms have "getEclipseDefinition tbl now = Some b"
    by (rule getEclipseDefinition_later)
  with 1 show "elements_at tbl start now = update_elements (getEclipseDefinition tbl now) now"
    by simp
qed

theorem elements_from_initial_dataset_witness:
  "getEclipseDefinition all_bessel 1503338000 = Some bessel_1 \<and>
   (1503338000::real) \<le> 1503338331.2 \<and> (1503338331.2::real) < t0 bessel_1 + 4 * 3600 \<and>
   elements_at all_bessel 1503338000 1503338331.2 =
     update_elements (getEclipseDefinition all_bessel 1503338331.2) 1503338331.2 \<and>
   map_sum id b_d (elements_at all_bessel 1503338000 1503338331.2) = Inr 11.8669596"
proof -
  have g: "getEclipseDefinition all_bessel 1503338000 = Some bessel_1"
    by (simp add: all_bessel_def bessel_0_def bessel_1_def)
  have r: "(1503338000::real) \<le> 1503338331.2 \<and> (1503338331.2::real) < t0 bessel_1 + 4 * 3600"
    by (simp add: bessel_1_def)
  have a: "elements_at all_bessel 1503338000 1503338331.2 =
     update_elements (getEclipseDefinition all_bessel 1503338331.2) 1503338331.2"
    by (rule elements_from_initial_dataset [OF g, of "1503338331.2",
          THEN conjunct2, THEN conjunct2, rule_format, OF r])
  have b: "elements_at all_bessel 1503338000 1503338331.2 = update_elements (Some bessel_1) 1503338331.2"
    by (rule elements_from_initial_dataset [OF g, of "1503338331.2", THEN conjunct1])
  have c: "map_sum id b_d (update_elements (Some bessel_1) 1503338331.2) = Inr 11.8669596"
    by (simp add: update_elements_def getElements_def Let_def bessel_1_def poly_def)
  from g r a b c show ?thesis by (simp only: simp_thms)
qed

text \<open>
  C5: producing the elements never fails; when no dataset applies, the
  elements carry \<open>deltat = -1\<close>. The code does set the marker when the tick is
  more than four hours from the epoch of its dataset, but it has no dataset at
  all once the layer is initialised after the window of the last entry of the
  table: the selector returns \<^verbatim>\<open>null\<close> and \<^verbatim>\<open>getElements\<close> reads
  \<^verbatim>\<open>bessel.t0\<close> of it, which throws. The theorem evaluates the program with
  its own table at the instant 2131081200, in July 2037.
\<close>

theorem no_dataset_throws:
  "getEclipseDefinition all_bessel 2131081200 = None \<and>
   elements_at all_bessel 2131081200 2131081200 = Inl TypeError"
  by (simp add: elements_at_def initialize_bessel_def update_elements_def getElements_def
      all_bessel_def bessel_defs)


section \<open>Properties of the fragment shader\<close>

lemma shadow_geometry_overhead: "shadow_geometry overhead_total 0 0 = (1, - (1 / 2), 0)"
  by (simp add: shadow_geometry_def overhead_total_def Let_def)

lemma eclipse_term_overhead: "eclipse_term overhead_total 0.65 0 0 = Some (1, 1)"
proof -
  have "deltat overhead_total > 0" by (simp add: overhead_total_def)
  then show ?thesis
    by (simp add: eclipse_term_def shadow_geometry_overhead shadow_def Let_def)
qed

lemma fAltitude_noon: "fAltitude noon 0 0 = pi / 2"
  by (simp add: fAltitude_def noon_def Let_def)

lemma cos_negative:
  fixes x :: real
  assumes x: "2 \<le> x" "x < 3"
  shows "- 1 \<le> cos x \<and> cos x < 0"
proof -
  have p: "2 \<le> pi" "pi < 4" by (rule pi_ge_two, rule pi_less_4)
  have "0 < sin (x - pi / 2)"
    using x p by (intro sin_gt_zero) linarith+
  moreover have "sin (x - pi / 2) = - cos x"
    by (simp add: sin_diff)
  ultimately show ?thesis using cos_ge_minus_one [of x] by linarith
qed

lemma cos_within:
  fixes x :: real
  shows "\<not> 1 < cos x" and "\<not> cos x < - 1"
  by (simp_all add: not_less)

lemma fAltitude_late_evening: "fAltitude late_evening 0 0 < 0"
proof -
  have eq: "fAltitude late_evening 0 0 = arcsin (cos (15707963 / 6000000))"
    by (simp add: fAltitude_def late_evening_def Let_def cos_within)
  have c: "- 1 \<le> cos (15707963 / 6000000 :: real) \<and> cos (15707963 / 6000000 :: real) < 0"
    by (rule cos_negative) simp_all
  then have "arcsin (cos (15707963 / 6000000)) < arcsin 0"
    by (intro arcsin_less_arcsin) simp_all
  with eq show ?thesis by simp
qed

lemma main_Some:
  "eclipse_term u f lat lng = Some (obs, ov) \<Longrightarrow>
   main u sit f en nl lat lng =
     Some (fragColor f en nl (clamp_obs (twilight obs (fAltitude sit lat lng)))
             (night_override ov (fAltitude sit lat lng)))"
  by (simp add: main_def shade_def)

text \<open>
  C6, as the specification states it: the override term is zeroed whenever
  the altitude is at least 0. The code tests \<^verbatim>\<open>fAltitude < 0.\<close>: in
  daylight the override stays. Under the total eclipse at noon the altitude is
  \<open>\<pi>/2\<close>, the override is 1 after the test, and the opacity is 1 instead of
  the \<open>0.65\<close> that a zeroed override would leave.
\<close>

theorem override_daylight_counterexample:
  "0 \<le> fAltitude noon 0 0 \<and>
   eclipse_term overhead_total 0.65 0 0 = Some (1, 1) \<and>
   night_override 1 (fAltitude noon 0 0) = 1 \<and>
   map_option vec_w (main overhead_total noon 0.65 0 (0, 0, 0) 0 0) = Some 1"
proof -
  have a: "(0::real) \<le> pi / 2" using pi_ge_two by simp
  have t: "twilight 1 (pi / 2) = 1"
    using pi_ge_two by (simp add: twilight_def)
  have n: "night_override 1 (pi / 2) = 1"
    using a by (simp add: night_override_def)
  have "main overhead_total noon 0.65 0 (0, 0, 0) 0 0 =
          Some (fragColor 0.65 0 (0, 0, 0) 1 1)"
    using main_Some [OF eclipse_term_overhead, of noon 0 "(0, 0, 0)"]
    by (simp add: fAltitude_noon t n clamp_obs_def)
  then show ?thesis
    using a n eclipse_term_overhead by (simp add: fAltitude_noon fragColor_def)
qed

text \<open>
  C6, amended: the override term is zeroed whenever the altitude is below 0
  and is left as the eclipse block computed it whenever the altitude is at
  least 0.
\<close>

theorem override_zeroed_at_night:
  assumes "eclipse_term u f lat lng = Some (obs, ov)"
  shows "(fAltitude sit lat lng < 0 \<longrightarrow>
            main u sit f en nl lat lng =
              Some (fragColor f en nl (clamp_obs (twilight obs (fAltitude sit lat lng))) 0)) \<and>
         (0 \<le> fAltitude sit lat lng \<longrightarrow>
            main u sit f en nl lat lng =
              Some (fragColor f en nl (clamp_obs (twilight obs (fAltitude sit lat lng))) ov))"
  by (simp add: main_Some [OF assms] night_override_def)

theorem override_zeroed_at_night_witness:
  "eclipse_term overhead_total 0.65 0 0 = Some (1, 1) \<and>
   fAltitude late_evening 0 0 < 0 \<and>
   main overhead_total late_evening 0.65 0 (0, 0, 0) 0 0 =
     Some (fragColor 0.65 0 (0, 0, 0) (clamp_obs (twilight 1 (fAltitude late_evening 0 0))) 0) \<and>
   0 \<le> fAltitude noon 0 0 \<and>
   main overhead_total noon 0.65 0 (0, 0, 0) 0 0 =
     Some (fragColor 0.65 0 (0, 0, 0) (clamp_obs (twilight 1 (fAltitude noon 0 0))) 1)"
proof -
  have d: "0 \<le> fAltitude noon 0 0" using pi_ge_two by (simp add: fAltitude_noon)
  note T = override_zeroed_at_night [OF eclipse_term_overhead]
  from T [THEN conjunct1, THEN mp, OF fAltitude_late_evening]
       T [THEN conjunct2, THEN mp, OF d]
       eclipse_term_overhead fAltitude_late_evening d
  show ?thesis by (simp only: simp_thms)
qed

lemma twilight_as_clamped_blend:
  "twilight obs alt = blend obs (max (- 0.018) (min 0.018 alt))"
  by (simp add: twilight_def blend_def max_def min_def)

lemma clamp_obs_as_max_min: "clamp_obs obs = max 0 (min 1 obs)"
  by (simp add: clamp_obs_def max_def min_def)

lemma continuous_twilight: "continuous_on UNIV (twilight obs)"
proof -
  have "continuous_on UNIV (\<lambda>alt. blend obs (max (- 0.018) (min 0.018 alt)))"
    unfolding blend_def by (intro continuous_intros) simp_all
  then show ?thesis
    by (simp add: twilight_as_clamped_blend [abs_def])
qed

lemma continuous_clamped_twilight: "continuous_on UNIV (\<lambda>alt. clamp_obs (twilight obs alt))"
proof -
  have "continuous_on UNIV (\<lambda>alt. max 0 (min 1 (twilight obs alt)))"
    by (intro continuous_intros continuous_twilight)
  then show ?thesis
    by (simp add: clamp_obs_as_max_min)
qed

lemma shade_w:
  "vec_w (shade f en nl alt (obs, ov)) =
     max (night_override ov alt) (f * clamp_obs (twilight obs alt))"
  by (simp add: shade_def fragColor_def Let_def)

lemma opacity_continuous_off_zero:
  assumes "a \<noteq> 0"
  shows "isCont (\<lambda>alt. vec_w (shade f en nl alt (obs, ov))) a"
proof -
  define k where "k = night_override ov a"
  have c: "isCont (\<lambda>alt. max k (f * clamp_obs (twilight obs alt))) a"
    using continuous_clamped_twilight [of obs]
    by (intro continuous_intros) (simp add: continuous_on_eq_continuous_at)
  have "eventually (\<lambda>alt. alt \<noteq> 0 \<and> (alt < 0 \<longleftrightarrow> a < 0)) (nhds a)"
  proof (cases "a < 0")
    case True
    have "eventually (\<lambda>alt. alt < 0) (nhds a)"
      using True by (rule order_tendstoD(2) [OF filterlim_ident])
    then show ?thesis using True by (auto elim: eventually_mono)
  next
    case False
    with assms have "0 < a" by simp
    then have "eventually (\<lambda>alt. 0 < alt) (nhds a)"
      by (rule order_tendstoD(1) [OF filterlim_ident])
    then show ?thesis using False by (auto elim: eventually_mono)
  qed
  then have "eventually (\<lambda>alt. vec_w (shade f en nl alt (obs, ov)) =
                max k (f * clamp_obs (twilight obs alt))) (nhds a)"
    by (rule eventually_mono) (auto simp: shade_w k_def night_override_def)
  with c show ?thesis
    by (simp add: isCont_cong)
qed


text \<open>
  C7: the blended obscuration is a continuous function of the altitude, in
  particular at the two ends of the twilight band: at \<open>0.018\<close> the blend
  takes the value of the day side, the incoming \<^verbatim>\<open>obs\<close>, and at
  \<open>- 0.018\<close> it takes the value 1 of the night side. At altitude 0 with an
  incoming \<^verbatim>\<open>obs\<close> of 0 the blended value is \<open>0.5\<close>. The same holds
  after the clamp of \<^verbatim>\<open>obs\<close> to \<open>[0, 1]\<close>, and the opacity that the
  shader writes is continuous at the two ends of the band as well.
\<close>

theorem twilight_blend_continuous:
  "isCont (twilight obs) 0.018 \<and> isCont (twilight obs) (- 0.018) \<and>
   isCont (\<lambda>alt. clamp_obs (twilight obs alt)) 0.018 \<and>
   isCont (\<lambda>alt. clamp_obs (twilight obs alt)) (- 0.018) \<and>
   continuous_on UNIV (twilight obs) \<and>
   isCont (\<lambda>alt. vec_w (shade f en nl alt (obs, ov))) 0.018 \<and>
   isCont (\<lambda>alt. vec_w (shade f en nl alt (obs, ov))) (- 0.018) \<and>
   blend obs 0.018 = obs \<and> twilight obs 0.018 = obs \<and>
   blend obs (- 0.018) = 1 \<and> twilight obs (- 0.018) = 1 \<and>
   twilight 0 0 = 0.5 \<and> clamp_obs (twilight 0 0) = 0.5"
proof -
  have c1: "\<And>a. isCont (twilight obs) a"
    using continuous_twilight [of obs] by (simp add: continuous_on_eq_continuous_at)
  have c2: "\<And>a. isCont (\<lambda>alt. clamp_obs (twilight obs alt)) a"
    using continuous_clamped_twilight [of obs] by (simp add: continuous_on_eq_continuous_at)
  have v: "blend obs 0.018 = obs" "twilight obs 0.018 = obs"
    "blend obs (- 0.018) = 1" "twilight obs (- 0.018) = 1"
    "twilight 0 0 = 0.5" "clamp_obs (twilight 0 0) = 0.5"
    by (simp_all add: blend_def twilight_def clamp_obs_def)
  have o: "isCont (\<lambda>alt. vec_w (shade f en nl alt (obs, ov))) 0.018"
    "isCont (\<lambda>alt. vec_w (shade f en nl alt (obs, ov))) (- 0.018)"
    by (rule opacity_continuous_off_zero, simp)+
  from c1 c2 v o continuous_twilight show ?thesis by (simp only: simp_thms)
qed

lemma shadow_band:
  assumes "\<bar>L2\<bar> \<le> d" "d < L1"
  shows "L1 + L2 \<noteq> 0" and "0 < L1 + L2"
    and "map_option fst (shadow f L1 L2 d) = Some ((L1 - d) / (L1 + L2))"
proof -
  from assms show p: "0 < L1 + L2" by linarith
  then show "L1 + L2 \<noteq> 0" by simp
  with assms show "map_option fst (shadow f L1 L2 d) = Some ((L1 - d) / (L1 + L2))"
    by (simp add: shadow_def Let_def)
qed

text \<open>
  C8: within the penumbral band, that is for distances \<open>d\<close> from the axis
  with \<open>|L2| \<le> d < L1\<close>, the base obscuration is \<open>(L1 - d) / (L1 + L2)\<close> and
  does not increase when \<open>d\<close> grows, for fixed \<open>L1\<close> and \<open>L2\<close>.
\<close>

theorem penumbra_obs_antimono:
  assumes "\<bar>L2\<bar> \<le> d1" and "d1 \<le> d2" and "d2 < L1"
  shows "map_option fst (shadow f L1 L2 d1) = Some ((L1 - d1) / (L1 + L2)) \<and>
         map_option fst (shadow f L1 L2 d2) = Some ((L1 - d2) / (L1 + L2)) \<and>
         (L1 - d2) / (L1 + L2) \<le> (L1 - d1) / (L1 + L2)"
proof -
  from assms have b1: "\<bar>L2\<bar> \<le> d1" "d1 < L1" and b2: "\<bar>L2\<bar> \<le> d2" "d2 < L1"
    by linarith+
  have "0 < L1 + L2" using b1 by (rule shadow_band(2))
  with assms(2) have "(L1 - d2) / (L1 + L2) \<le> (L1 - d1) / (L1 + L2)"
    by (simp add: divide_right_mono)
  with shadow_band(3) [OF b1] shadow_band(3) [OF b2] show ?thesis by simp
qed

theorem penumbra_obs_antimono_witness:
  "\<bar>1 / 2 :: real\<bar> \<le> 6 / 10 \<and> (6 / 10 :: real) \<le> 8 / 10 \<and> (8 / 10 :: real) < 1 \<and>
   map_option fst (shadow 0.65 1 (1 / 2) (6 / 10)) = Some (4 / 15) \<and>
   map_option fst (shadow 0.65 1 (1 / 2) (8 / 10)) = Some (2 / 15) \<and>
   (2 / 15 :: real) \<le> 4 / 15"
proof -
  have h: "\<bar>1 / 2 :: real\<bar> \<le> 6 / 10" "(6 / 10 :: real) \<le> 8 / 10" "(8 / 10 :: real) < 1"
    by simp_all
  from penumbra_obs_antimono [OF h, of "0.65"] h show ?thesis by simp
qed
















text \<open>
  C10, as the specification states it: the luminance of the city lights is
  floored at 0. The shader has no floor. Under the total eclipse at noon
  (\<^verbatim>\<open>obs = 1\<close>) with the lights enabled, a black sample of the night
  raster gives the luminance \<open>(0 - 0.1) * 0.7 = - 0.07\<close>.
\<close>

theorem luminance_floor_counterexample:
  "main overhead_total noon 0.65 1 (0, 0, 0) 0 0 =
     Some \<lparr>vec_x = - 0.07, vec_y = - 0.07, vec_z = - 0.07, vec_w = 1\<rparr> \<and>
   (- 0.07 :: real) < 0"
proof -
  have t: "twilight 1 (pi / 2) = 1"
    using pi_ge_two by (simp add: twilight_def)
  have n: "night_override 1 (pi / 2) = 1"
    using pi_ge_two by (simp add: night_override_def)
  show ?thesis
    using main_Some [OF eclipse_term_overhead, of noon 1 "(0, 0, 0)"]
    by (simp add: fAltitude_noon t n clamp_obs_def fragColor_def Let_def)
qed

text \<open>
  C10, amended: the colour channels carry a luminance only when
  \<^verbatim>\<open>obs > 0.90\<close> and the city lights are enabled, and are 0 otherwise.
  The luminance is \<open>(avg - 0.1) * 7 * (obs - 0.90)\<close>, where \<open>avg\<close> is the
  average of the three channels of the sample of the night raster: linear in
  \<^verbatim>\<open>obs\<close>, tending to 0 at \<open>0.90\<close>, and \<open>0.7 * (avg - 0.1)\<close> at \<open>1.0\<close>. The shader
  applies no floor: the luminance is negative exactly when \<open>avg < 0.1\<close>.
\<close>

theorem city_lights_luminance:
  "(obs > 0.90 \<and> en > 0 \<longrightarrow>
      vec_x (fragColor f en (nx, ny, nz) obs ov) = ((nx + ny + nz) / 3 - 0.1) * 7 * (obs - 0.90) \<and>
      vec_y (fragColor f en (nx, ny, nz) obs ov) = vec_x (fragColor f en (nx, ny, nz) obs ov) \<and>
      vec_z (fragColor f en (nx, ny, nz) obs ov) = vec_x (fragColor f en (nx, ny, nz) obs ov) \<and>
      (vec_x (fragColor f en (nx, ny, nz) obs ov) < 0 \<longleftrightarrow> (nx + ny + nz) / 3 < 0.1)) \<and>
   (\<not> (obs > 0.90 \<and> en > 0) \<longrightarrow>
      vec_x (fragColor f en (nx, ny, nz) obs ov) = 0 \<and>
      vec_y (fragColor f en (nx, ny, nz) obs ov) = 0 \<and>
      vec_z (fragColor f en (nx, ny, nz) obs ov) = 0) \<and>
   (en > 0 \<longrightarrow> vec_x (fragColor f en (nx, ny, nz) 1 ov) = 0.7 * ((nx + ny + nz) / 3 - 0.1))"
proof (intro conjI impI)
  assume a: "obs > 0.90 \<and> en > 0"
  then show x: "vec_x (fragColor f en (nx, ny, nz) obs ov) =
                  ((nx + ny + nz) / 3 - 0.1) * 7 * (obs - 0.90)"
    by (simp add: fragColor_def Let_def field_simps)
  from a show "vec_y (fragColor f en (nx, ny, nz) obs ov) = vec_x (fragColor f en (nx, ny, nz) obs ov)"
    and "vec_z (fragColor f en (nx, ny, nz) obs ov) = vec_x (fragColor f en (nx, ny, nz) obs ov)"
    by (simp_all add: fragColor_def Let_def)
  define k where "k = (nx + ny + nz) / 3 - 0.1"
  define m where "m = 7 * (obs - 0.90)"
  from a have m: "0 < m" by (simp add: m_def)
  have "vec_x (fragColor f en (nx, ny, nz) obs ov) = k * m"
    unfolding x k_def m_def by (simp only: mult.assoc)
  moreover from m have "k * m < 0 \<longleftrightarrow> k < 0"
    by (simp add: mult_less_0_iff not_less_iff_gr_or_eq)
  moreover have "k < 0 \<longleftrightarrow> (nx + ny + nz) / 3 < 0.1"
    by (simp add: k_def)
  ultimately show "vec_x (fragColor f en (nx, ny, nz) obs ov) < 0 \<longleftrightarrow> (nx + ny + nz) / 3 < 0.1"
    by (simp only:)
next
  assume "\<not> (obs > 0.90 \<and> en > 0)"
  then show "vec_x (fragColor f en (nx, ny, nz) obs ov) = 0"
    and "vec_y (fragColor f en (nx, ny, nz) obs ov) = 0"
    and "vec_z (fragColor f en (nx, ny, nz) obs ov) = 0"
    by (auto simp: fragColor_def)
next
  assume "en > 0"
  then show "vec_x (fragColor f en (nx, ny, nz) 1 ov) = 0.7 * ((nx + ny + nz) / 3 - 0.1)"
    by (simp add: fragColor_def Let_def)
qed

theorem city_lights_luminance_witness:
  "(0.95 :: real) > 0.90 \<and> (1 :: real) > 0 \<and>
   vec_x (fragColor 0.65 1 (0.4, 0.4, 0.4) 0.95 0) = 0.105 \<and>
   \<not> ((0.5 :: real) > 0.90 \<and> (1 :: real) > 0) \<and>
   vec_x (fragColor 0.65 1 (0.4, 0.4, 0.4) 0.5 0) = 0 \<and>
   vec_x (fragColor 0.65 1 (0.4, 0.4, 0.4) 1 0) = 0.21"
proof -
  have a: "(0.95 :: real) > 0.90 \<and> (1 :: real) > 0" by simp
  have b: "\<not> ((0.5 :: real) > 0.90 \<and> (1 :: real) > 0)" by simp
  have c: "(1 :: real) > 0" by simp
  note T = city_lights_luminance [of _ 1 "0.65" "0.4" "0.4" "0.4" 0]
  have 1: "vec_x (fragColor 0.65 1 (0.4, 0.4, 0.4) 0.95 0) = 0.105"
    using T [of "0.95", THEN conjunct1, THEN mp, OF a, THEN conjunct1] by simp
  have 2: "vec_x (fragColor 0.65 1 (0.4, 0.4, 0.4) 0.5 0) = 0"
    using T [of "0.5", THEN conjunct2, THEN conjunct1, THEN mp, OF b, THEN conjunct1] by simp
  have 3: "vec_x (fragColor 0.65 1 (0.4, 0.4, 0.4) 1 0) = 0.21"
    using T [of "0.95", THEN conjunct2, THEN conjunct2, THEN mp, OF c] by simp
  from a b 1 2 3 show ?thesis by simp
qed

section \<open>Properties of the cache\<close>

lemma zoom_view_footprint: "zoom (view_footprint v) = map_zoom v"
  by (simp add: view_footprint_def Let_def)

lemma calls_trace: "trace s' = trace s @ es \<Longrightarrow>
   calls s' = calls s + length (filter (\<lambda>e. case e of CallOnceLoaded _ \<Rightarrow> True | _ \<Rightarrow> False) es)"
  by (simp add: calls_def)

lemma tile_requests_no_calls:
  "filter (\<lambda>e. case e of CallOnceLoaded _ \<Rightarrow> True | _ \<Rightarrow> False)
     (tile_requests cid xMax yMax z xO yO) = []"
  unfolding tile_requests_def filter_empty_conv by auto

lemma calls_dobindTexture: "calls (dobindTexture cid s) = calls s"
  by (simp add: dobindTexture_def calls_def Let_def split: option.splits)


lemma dobindTexture_keeps [simp]:
  "loadedCity (dobindTexture cid s) = loadedCity s"
  "cities (dobindTexture cid s) = cities s"
  "canvasId (dobindTexture cid s) = canvasId s"
  "generation (dobindTexture cid s) = generation s"
  "this_generation (dobindTexture cid s) = this_generation s"
  by (simp_all add: dobindTexture_def Let_def split: option.splits)

lemma start_load_fields:
  "loadedCity (start_load v s) = Some (canvasId s + 1)"
  "canvasId (start_load v s) = canvasId s + 1"
  "generation (start_load v s) = generation s"
  "this_generation (start_load v s) = this_generation s"
  by (simp_all add: start_load_def Let_def)

lemma start_load_city:
  "\<exists>c. cities (start_load v s) (canvasId s + 1) = Some c \<and>
       same_key c (view_footprint v) \<and> \<not> onceLoaded c \<and> city_id c = canvasId s + 1"
  by (simp add: start_load_def Let_def same_key_def)

lemma start_load_others:
  "i \<noteq> canvasId s + 1 \<Longrightarrow> cities (start_load v s) i = cities s i"
  by (simp add: start_load_def Let_def)

lemma calls_start_load: "calls (start_load v s) = calls s"
  by (simp add: start_load_def Let_def calls_dobindTexture)
     (simp add: calls_def tile_requests_no_calls)

lemma loaded_Some: "loadedCity s = Some l \<Longrightarrow> cities s l = Some c \<Longrightarrow> loaded s = Some (l, c)"
  by (simp add: loaded_def)

lemma loaded_None: "loadedCity s = None \<Longrightarrow> loaded s = None"
  by (simp add: loaded_def)

lemma loadData_unfold:
  "loadData v s =
     (if \<not> has_map v \<or> \<not> map_zoom v \<le> 8 then s
      else case loaded s of
             None \<Rightarrow> start_load v s
           | Some (l, c) \<Rightarrow>
               if same_key c (view_footprint v) then s
               else if pending c > 0
                    then s\<lparr>cities := (cities s)(l \<mapsto> c\<lparr>onceLoaded := True\<rparr>)\<rparr>
                    else start_load v s)"
  by (cases "loaded s") (auto simp: loadData_def Let_def zoom_view_footprint)

lemma calls_update [simp]:
  "calls (s\<lparr>cities := m\<rparr>) = calls s"
  "calls (s\<lparr>textureUpdate := t\<rparr>) = calls s"
  by (simp_all add: calls_def)

lemma calls_loadData: "calls (loadData v s) = calls s"
  by (cases "loaded s") (auto simp: loadData_unfold calls_start_load)

lemma loadData_defer:
  assumes "has_map v" and "map_zoom v \<le> 8"
    and "loadedCity s = Some l" and "cities s l = Some c"
    and "0 < pending c" and "\<not> same_key c (view_footprint v)"
  shows "loadData v s = s\<lparr>cities := (cities s)(l \<mapsto> c\<lparr>onceLoaded := True\<rparr>)\<rparr>"
  using assms by (simp add: loadData_unfold loaded_Some)

lemma loadData_skip:
  assumes "loadedCity s = Some l" and "cities s l = Some c"
    and "same_key c (view_footprint v)"
  shows "loadData v s = s"
  using assms by (simp add: loadData_unfold loaded_Some)

lemma loadData_start:
  assumes "has_map v" and "map_zoom v \<le> 8"
    and "loadedCity s = Some l" and "cities s l = Some c"
    and "pending c \<le> 0" and "\<not> same_key c (view_footprint v)"
  shows "loadData v s = start_load v s"
  using assms by (simp add: loadData_unfold loaded_Some)

lemma loadData_first:
  assumes "has_map v" and "map_zoom v \<le> 8" and "loadedCity s = None"
  shows "loadData v s = start_load v s"
  using assms by (simp add: loadData_unfold loaded_None)

text \<open>A load that has just been started is the loaded city, with the key of the view.\<close>

lemma loadData_twice:
  assumes "has_map v" and "map_zoom v \<le> 8" and "loadedCity s = None"
  shows "loadData v (loadData v s) = loadData v s"
proof -
  have 1: "loadData v s = start_load v s" using assms by (rule loadData_first)
  obtain c where c: "cities (start_load v s) (canvasId s + 1) = Some c"
    "same_key c (view_footprint v)"
    using start_load_city [of v s] by blast
  have "loadData v (start_load v s) = start_load v s"
  proof (rule loadData_skip)
    show "loadedCity (start_load v s) = Some (canvasId s + 1)" by (rule start_load_fields)
    show "cities (start_load v s) (canvasId s + 1) = Some c" by (rule c(1))
    show "same_key c (view_footprint v)" by (rule c(2))
  qed
  with 1 show ?thesis by simp
qed


lemma is_current_update [simp]:
  "is_current (s\<lparr>cities := m\<rparr>) = is_current s"
  "is_current (s\<lparr>trace := t\<rparr>) = is_current s"
  "is_current (s\<lparr>textureUpdate := u\<rparr>) = is_current s"
  by (simp_all add: is_current_def)

lemma same_key_pending [simp]: "same_key (c\<lparr>pending := p\<rparr>) n = same_key c n"
  by (simp add: same_key_def)

text \<open>\<^verbatim>\<open>loadData\<close> when the loaded city has nothing pending: the city itself is
  left as it is, and a new load starts unless the key is the same or the guards
  of \<^verbatim>\<open>loadData\<close> stop it.\<close>

lemma loadData_idle:
  assumes "loadedCity s = Some l" and "cities s l = Some c" and "pending c \<le> 0"
    and "l \<le> canvasId s"
  shows "cities (loadData v s) l = Some c"
    and "has_map v \<and> map_zoom v \<le> 8 \<and> \<not> same_key c (view_footprint v) \<longrightarrow>
           loadedCity (loadData v s) = Some (canvasId s + 1) \<and>
           canvasId (loadData v s) = canvasId s + 1"
    and "\<not> (has_map v \<and> map_zoom v \<le> 8 \<and> \<not> same_key c (view_footprint v)) \<longrightarrow>
           loadData v s = s"
proof -
  from assms(4) have ne: "l \<noteq> canvasId s + 1" by simp
  from assms(1,2) have ld: "loaded s = Some (l, c)" by (rule loaded_Some)
  from assms(3) have np: "\<not> 0 < pending c" by simp
  show "cities (loadData v s) l = Some c"
    using ld np assms(2) start_load_others [OF ne, of v]
    by (simp add: loadData_unfold)
  show "has_map v \<and> map_zoom v \<le> 8 \<and> \<not> same_key c (view_footprint v) \<longrightarrow>
           loadedCity (loadData v s) = Some (canvasId s + 1) \<and>
           canvasId (loadData v s) = canvasId s + 1"
    using ld np by (simp add: loadData_unfold start_load_fields)
  show "\<not> (has_map v \<and> map_zoom v \<le> 8 \<and> \<not> same_key c (view_footprint v)) \<longrightarrow>
           loadData v s = s"
    using ld np by (auto simp: loadData_unfold)
qed

lemma complete_not_last:
  assumes "cities s l = Some c" and "loadedCity s = Some l" and "is_current s"
    and "1 < pending c"
  shows "loadedCity (complete l w k s) = Some l"
    and "cities (complete l w k s) l = Some (c\<lparr>pending := pending c - 1\<rparr>)"
    and "is_current (complete l w k s)"
    and "canvasId (complete l w k s) = canvasId s"
    and "calls (complete l w k s) = calls s"
  using assms
  by (cases k; simp add: makeCallback_def makeErrorCallback_def Let_def calls_def)+


lemma finish_load_fire:
  assumes "cities s l = Some c" and "onceLoaded c" and "loadedCity s = Some l"
    and "pending c \<le> 0" and "l \<le> canvasId s"
  shows "calls (finish_load w l s) = calls s + 1"
    and "cities (finish_load w l s) l = Some (c\<lparr>onceLoaded := False\<rparr>)"
    and "has_map w \<and> map_zoom w \<le> 8 \<and> \<not> same_key c (view_footprint w) \<longrightarrow>
           loadedCity (finish_load w l s) = Some (canvasId s + 1) \<and>
           canvasId (finish_load w l s) = canvasId s + 1"
proof -
  define s1 where "s1 = s\<lparr>textureUpdate := Some l, trace := trace s @ [CallOnceLoaded l]\<rparr>"
  have f: "finish_load w l s =
             (case cities (loadData w s1) l of
                None \<Rightarrow> loadData w s1
              | Some c2 \<Rightarrow> (loadData w s1)\<lparr>cities := (cities (loadData w s1))(l \<mapsto> c2\<lparr>onceLoaded := False\<rparr>)\<rparr>)"
    using assms(1,2) unfolding s1_def by (simp add: finish_load_def Let_def)
  have s1: "loadedCity s1 = Some l" "cities s1 l = Some c" "l \<le> canvasId s1"
    "canvasId s1 = canvasId s"
    using assms by (simp_all add: s1_def)
  have c1: "calls s1 = calls s + 1" by (simp add: s1_def calls_def)
  note idle = loadData_idle [OF s1(1) s1(2) assms(4) s1(3), of w]
  have g: "finish_load w l s =
             (loadData w s1)\<lparr>cities := (cities (loadData w s1))(l \<mapsto> c\<lparr>onceLoaded := False\<rparr>)\<rparr>"
    using idle(1) by (simp add: f)
  show "calls (finish_load w l s) = calls s + 1"
    by (simp add: g calls_loadData c1)
  show "cities (finish_load w l s) l = Some (c\<lparr>onceLoaded := False\<rparr>)"
    by (simp add: g)
  show "has_map w \<and> map_zoom w \<le> 8 \<and> \<not> same_key c (view_footprint w) \<longrightarrow>
           loadedCity (finish_load w l s) = Some (canvasId s + 1) \<and>
           canvasId (finish_load w l s) = canvasId s + 1"
    using idle(2) by (simp add: g s1(4))
qed

lemma complete_last:
  assumes "cities s l = Some c" and "loadedCity s = Some l" and "is_current s"
    and "pending c = 1" and "onceLoaded c" and "l \<le> canvasId s"
  shows "calls (complete l w k s) = calls s + 1"
    and "cities (complete l w k s) l = Some (c\<lparr>pending := 0, onceLoaded := False\<rparr>)"
    and "has_map w \<and> map_zoom w \<le> 8 \<and> \<not> same_key c (view_footprint w) \<longrightarrow>
           loadedCity (complete l w k s) = Some (canvasId s + 1) \<and>
           canvasId (complete l w k s) = canvasId s + 1"
proof -
  define c0 where "c0 = c\<lparr>pending := 0\<rparr>"
  define ev where "ev = (case k of Loaded x y \<Rightarrow> [DrawImage l (x * 256) (y * 256)] | Failed \<Rightarrow> [])"
  define s2 where "s2 = s\<lparr>cities := (cities s)(l \<mapsto> c0), trace := trace s @ ev\<rparr>"
  have e: "complete l w k s = finish_load w l s2"
    using assms(1-4)
    by (cases k) (simp_all add: makeCallback_def makeErrorCallback_def Let_def s2_def c0_def ev_def)
  have s2: "cities s2 l = Some c0" "onceLoaded c0" "loadedCity s2 = Some l"
    "pending c0 \<le> 0" "l \<le> canvasId s2" "canvasId s2 = canvasId s"
    using assms by (simp_all add: s2_def c0_def)
  have cs: "calls s2 = calls s"
    by (cases k) (simp_all add: s2_def ev_def calls_def)
  note F = finish_load_fire [OF s2(1-5), of w]
  show "calls (complete l w k s) = calls s + 1" by (simp add: e F(1) cs)
  show "cities (complete l w k s) l = Some (c\<lparr>pending := 0, onceLoaded := False\<rparr>)"
    by (simp add: e F(2) c0_def)
  show "has_map w \<and> map_zoom w \<le> 8 \<and> \<not> same_key c (view_footprint w) \<longrightarrow>
           loadedCity (complete l w k s) = Some (canvasId s + 1) \<and>
           canvasId (complete l w k s) = canvasId s + 1"
    using F(3) by (simp add: e c0_def s2(6))
qed

text \<open>All the completions of a load whose continuation is set: the last one, and
  only the last one, calls it.\<close>

lemma completions_fire_once:
  assumes "cities s l = Some c" and "loadedCity s = Some l" and "is_current s"
    and "onceLoaded c" and "l \<le> canvasId s"
    and "ks \<noteq> []" and "pending c = int (length ks)"
  shows "calls (completions l w ks s) = calls s + 1 \<and>
         cities (completions l w ks s) l = Some (c\<lparr>pending := 0, onceLoaded := False\<rparr>) \<and>
         (has_map w \<and> map_zoom w \<le> 8 \<and> \<not> same_key c (view_footprint w) \<longrightarrow>
            loadedCity (completions l w ks s) = Some (canvasId s + 1) \<and>
            canvasId (completions l w ks s) = canvasId s + 1)"
  using assms
proof (induction ks arbitrary: s c)
  case Nil
  then show ?case by simp
next
  case (Cons k ks)
  show ?case
  proof (cases "ks = []")
    case True
    with Cons.prems have p: "pending c = 1" by simp
    from complete_last [OF Cons.prems(1,2,3) p Cons.prems(4,5), of w k] True
    show ?thesis by simp
  next
    case False
    with Cons.prems have p: "1 < pending c" by (cases ks) simp_all
    note N = complete_not_last [OF Cons.prems(1,2,3) p, of w k]
    define c' where "c' = c\<lparr>pending := pending c - 1\<rparr>"
    have IH: "calls (completions l w ks (complete l w k s)) = calls (complete l w k s) + 1 \<and>
         cities (completions l w ks (complete l w k s)) l = Some (c'\<lparr>pending := 0, onceLoaded := False\<rparr>) \<and>
         (has_map w \<and> map_zoom w \<le> 8 \<and> \<not> same_key c' (view_footprint w) \<longrightarrow>
            loadedCity (completions l w ks (complete l w k s)) = Some (canvasId (complete l w k s) + 1) \<and>
            canvasId (completions l w ks (complete l w k s)) = canvasId (complete l w k s) + 1)"
    proof (rule Cons.IH)
      show "cities (complete l w k s) l = Some c'" by (simp add: N(2) c'_def)
      show "loadedCity (complete l w k s) = Some l" by (rule N(1))
      show "is_current (complete l w k s)" by (rule N(3))
      show "onceLoaded c'" using Cons.prems(4) by (simp add: c'_def)
      show "l \<le> canvasId (complete l w k s)" using Cons.prems(5) by (simp add: N(4))
      show "ks \<noteq> []" by (rule False)
      show "pending c' = int (length ks)" using Cons.prems(7) by (simp add: c'_def)
    qed
    then show ?thesis by (simp add: N(4) N(5) c'_def)
  qed
qed

text \<open>The coherence of the store holds initially and is kept by every operation.\<close>

lemma store_ok_init: "store_ok (init_state g)"
  by (simp add: store_ok_def init_state_def)

lemma store_ok_loaded:
  assumes "store_ok s" and "loadedCity s = Some l"
  shows "l \<le> canvasId s \<and> (\<exists>c. cities s l = Some c)"
  using assms by (auto simp: store_ok_def)

lemma store_ok_start_load:
  assumes "store_ok s"
  shows "store_ok (start_load v s)"
proof -
  obtain c where c: "cities (start_load v s) (canvasId s + 1) = Some c"
    using start_load_city [of v s] by blast
  have sub: "dom (cities (start_load v s)) \<subseteq> insert (canvasId s + 1) (dom (cities s))"
    using start_load_others [of _ s v] by (auto simp: dom_def)
  from assms have "dom (cities s) \<subseteq> {1..canvasId s}" by (simp add: store_ok_def)
  then have "insert (canvasId s + 1) (dom (cities s)) \<subseteq> {1..canvasId s + 1}" by auto
  with sub have 1: "dom (cities (start_load v s)) \<subseteq> {1..canvasId (start_load v s)}"
    unfolding start_load_fields by (rule order_trans)
  from c have 2: "set_option (loadedCity (start_load v s)) \<subseteq> dom (cities (start_load v s))"
    by (auto simp: start_load_fields)
  from 1 2 show ?thesis by (simp add: store_ok_def)
qed

lemma store_ok_set_city:
  "store_ok s \<Longrightarrow> cities s i = Some c \<Longrightarrow> store_ok (s\<lparr>cities := (cities s)(i \<mapsto> c')\<rparr>)"
  by (auto simp: store_ok_def)

lemma store_ok_loadData: "store_ok s \<Longrightarrow> store_ok (loadData v s)"
  by (cases "loaded s")
     (auto simp: loadData_unfold store_ok_start_load loaded_def
           intro: store_ok_set_city split: option.splits)

lemma store_ok_other [simp]:
  "store_ok (s\<lparr>trace := t\<rparr>) = store_ok s"
  "store_ok (s\<lparr>textureUpdate := u\<rparr>) = store_ok s"
  by (simp_all add: store_ok_def)

lemma store_ok_finish_load: "store_ok s \<Longrightarrow> store_ok (finish_load v cid s)"
  by (auto simp: finish_load_def Let_def store_ok_loadData
           intro!: store_ok_set_city split: option.splits)

lemma store_ok_callbacks:
  assumes "store_ok s"
  shows "store_ok (makeCallback cid x y v s)" and "store_ok (makeErrorCallback cid v s)"
  using assms
  by (auto simp: makeCallback_def makeErrorCallback_def Let_def
           intro!: store_ok_finish_load store_ok_set_city split: option.splits)

lemma dobindTexture_pending:
  assumes "cities s cid = Some c"
  shows "trace (dobindTexture t (s\<lparr>cities := (cities s)(cid \<mapsto> c\<lparr>pending := p\<rparr>)\<rparr>)) =
           trace (dobindTexture t s)"
    and "loadedTextureInfo (dobindTexture t (s\<lparr>cities := (cities s)(cid \<mapsto> c\<lparr>pending := p\<rparr>)\<rparr>)) =
           loadedTextureInfo (dobindTexture t s)"
  using assms by (auto simp: dobindTexture_def Let_def split: option.splits)

lemma update_texture_pending:
  assumes "cities s cid = Some c"
  shows "trace (update_texture w (s\<lparr>cities := (cities s)(cid \<mapsto> c\<lparr>pending := p\<rparr>)\<rparr>)) =
           trace (update_texture w s)"
    and "loadedTextureInfo (update_texture w (s\<lparr>cities := (cities s)(cid \<mapsto> c\<lparr>pending := p\<rparr>)\<rparr>)) =
           loadedTextureInfo (update_texture w s)"
  using dobindTexture_pending [OF assms]
  by (auto simp: update_texture_def split: option.splits)


lemma cSize_511: "cSize 511 128 = 512"
  by (simp add: cSize.simps)

lemma view_footprint_small:
  "view_footprint small_view = \<lparr>width = 1024, height = 1024, xOff = 0, yOff = 0, zoom = 0\<rparr>"
  by (simp add: view_footprint_def view_tl_def centerCoord_def small_view_def Let_def cSize_511)

lemma view_footprint_zoomed:
  "view_footprint zoomed_view = \<lparr>width = 1024, height = 1024, xOff = 0, yOff = 0, zoom = 1\<rparr>"
  by (simp add: view_footprint_def view_tl_def centerCoord_def zoomed_view_def Let_def cSize_511)

lemma tile_requests_small:
  "tile_requests cid 2 2 0 0 0 =
     [GetCityLightsImage cid 0 0 0 0 0, GetCityLightsImage cid 0 1 0 0 0,
      GetCityLightsImage cid 1 0 0 0 0, GetCityLightsImage cid 1 1 0 0 0]"
  by (simp add: tile_requests_def js_rem_def upt_rec)

lemma first_load:
  "loadData small_view (init_state 0) =
     \<lparr>loadedCity = Some 1,
      cities = [1 \<mapsto> \<lparr>width = 1024, height = 1024, xOff = 0, yOff = 0, zoom = 0, city_id = 1,
                       pending = 4,
                       city_textureInfo = \<lparr>u_tl = (0, 0), u_tl_scale = (1 / 1024, 1 / 1024)\<rparr>,
                       onceLoaded = False\<rparr>],
      canvasId = 1, textureUpdate = None,
      loadedTextureInfo = Some \<lparr>u_tl = (0, 0), u_tl_scale = (1 / 1024, 1 / 1024)\<rparr>,
      generation = 0, this_generation = 0,
      trace = [CreateCanvas 1 1024 1024,
               GetCityLightsImage 1 0 0 0 0 0, GetCityLightsImage 1 0 1 0 0 0,
               GetCityLightsImage 1 1 0 0 0 0, GetCityLightsImage 1 1 1 0 0 0,
               BindTexture 1]\<rparr>"
proof -
  have h: "has_map small_view" "map_zoom small_view = 0" "canvas_width small_view = 256"
    "canvas_height small_view = 256" "resolutionScale small_view = 1"
    by (simp_all add: small_view_def)
  have l: "loaded (init_state 0) = None" by (simp add: loaded_def init_state_def)
  have ld: "loadData small_view (init_state 0) = start_load small_view (init_state 0)"
    using l h by (simp add: loadData_def Let_def view_footprint_small)
  show ?thesis
    unfolding ld
    by (simp add: start_load_def Let_def h view_footprint_small tile_requests_small
        dobindTexture_def init_state_def)
qed


lemma first_load_facts:
  "loadedCity (loadData small_view (init_state 0)) = Some 1"
  "cities (loadData small_view (init_state 0)) 1 = Some first_city"
  "canvasId (loadData small_view (init_state 0)) = 1"
  "is_current (loadData small_view (init_state 0))"
  "calls (loadData small_view (init_state 0)) = 0"
  "textureUpdate (loadData small_view (init_state 0)) = None"
  by (simp_all add: first_load is_current_def calls_def first_city_def)

text \<open>
  C1, as the specification states it, in its last part: the same key issued
  twice before the first load resolves gives one raster and one deferred
  continuation, the second call, which fires once. In the code a call with the
  key of \<^verbatim>\<open>loadedCity\<close> is skipped by \<^verbatim>\<open>canSkipCanvasLoad\<close> before the
  test of \<^verbatim>\<open>pending\<close>: the second call changes nothing, no continuation
  is stored, and none is called when the four tiles of the first load have
  completed.
\<close>

theorem same_key_counterexample:
  "loadData small_view (loadData small_view (init_state 0)) = loadData small_view (init_state 0) \<and>
   canvasId (loadData small_view (loadData small_view (init_state 0))) = 1 \<and>
   map_option pending (cities (loadData small_view (loadData small_view (init_state 0))) 1) = Some 4 \<and>
   map_option onceLoaded (cities (loadData small_view (loadData small_view (init_state 0))) 1)
     = Some False \<and>
   calls (completions 1 small_view [Failed, Failed, Failed, Failed]
            (loadData small_view (loadData small_view (init_state 0)))) = 0"
proof -
  have i: "has_map small_view" "map_zoom small_view \<le> 8" "loadedCity (init_state 0) = None"
    by (simp_all add: small_view_def init_state_def)
  have t: "loadData small_view (loadData small_view (init_state 0)) = loadData small_view (init_state 0)"
    using i by (rule loadData_twice)
  have c: "calls (completions 1 small_view [Failed, Failed, Failed, Failed]
                    (loadData small_view (init_state 0))) = 0"
    by (simp add: first_load makeErrorCallback_def finish_load_def is_current_def Let_def calls_def)
  show ?thesis
    unfolding t using c first_load_facts(2,3) by (simp add: first_city_def)
qed

text \<open>
  C1, amended. Let a load be in flight: \<^verbatim>\<open>loadedCity\<close> has
  \<^verbatim>\<open>pending > 0\<close>, and the generation is current. A call of
  \<^verbatim>\<open>loadData\<close> for a view with another key (with a map, at a zoom of at
  most 8) does not touch the load in flight, creates no canvas and requests no
  image: it only sets \<^verbatim>\<open>onceLoaded\<close> of the loaded city, whatever was
  there; a further such call changes nothing more. A call with the key of the
  loaded city changes nothing at all, so it stores no continuation. When the
  images of the load in flight have all completed, loaded or failed and in any
  order, the continuation has been called exactly once, by the last
  completion, and the slot is empty again; the continuation is
  \<^verbatim>\<open>loadData\<close> on the view of that moment, which starts exactly one new
  load when that view has another key than the finished one.
\<close>

theorem deferred_reload:
  assumes "has_map v" and "map_zoom v \<le> 8"
    and "loadedCity s = Some l" and "cities s l = Some c" and "l \<le> canvasId s"
    and "is_current s" and "0 < pending c" and "\<not> same_key c (view_footprint v)"
  shows "loadData v s = s\<lparr>cities := (cities s)(l \<mapsto> c\<lparr>onceLoaded := True\<rparr>)\<rparr> \<and>
         (has_map v2 \<and> map_zoom v2 \<le> 8 \<and> \<not> same_key c (view_footprint v2) \<longrightarrow>
            loadData v2 (loadData v s) = loadData v s) \<and>
         (same_key c (view_footprint v3) \<longrightarrow> loadData v3 s = s) \<and>
         (pending c = int (length ks) \<longrightarrow>
            calls (completions l w ks (loadData v s)) = calls s + 1 \<and>
            cities (completions l w ks (loadData v s)) l =
              Some (c\<lparr>pending := 0, onceLoaded := False\<rparr>) \<and>
            (has_map w \<and> map_zoom w \<le> 8 \<and> \<not> same_key c (view_footprint w) \<longrightarrow>
               loadedCity (completions l w ks (loadData v s)) = Some (canvasId s + 1) \<and>
               canvasId (completions l w ks (loadData v s)) = canvasId s + 1))"
proof (intro conjI impI)
  define c1 where "c1 = c\<lparr>onceLoaded := True\<rparr>"
  define s1 where "s1 = s\<lparr>cities := (cities s)(l \<mapsto> c1)\<rparr>"
  show d: "loadData v s = s\<lparr>cities := (cities s)(l \<mapsto> c\<lparr>onceLoaded := True\<rparr>)\<rparr>"
    using assms(1,2,3,4,7,8) by (rule loadData_defer)
  have s1: "loadedCity s1 = Some l" "cities s1 l = Some c1" "0 < pending c1"
    "is_current s1" "onceLoaded c1" "l \<le> canvasId s1" "calls s1 = calls s"
    "canvasId s1 = canvasId s"
    using assms by (simp_all add: s1_def c1_def)
  have k: "\<And>n. same_key c1 n = same_key c n" by (simp add: c1_def same_key_def)
  have e: "loadData v s = s1" by (simp add: d s1_def c1_def)
  {
    assume a: "has_map v2 \<and> map_zoom v2 \<le> 8 \<and> \<not> same_key c (view_footprint v2)"
    then have "loadData v2 s1 = s1\<lparr>cities := (cities s1)(l \<mapsto> c1\<lparr>onceLoaded := True\<rparr>)\<rparr>"
      using s1(1,2,3) by (intro loadData_defer) (simp_all add: k)
    also have "\<dots> = s1" by (simp add: s1_def c1_def)
    finally show "loadData v2 (loadData v s) = loadData v s" by (simp add: e)
  }
  {
    assume "same_key c (view_footprint v3)"
    with assms(3,4) show "loadData v3 s = s" by (rule loadData_skip)
  }
  {
    assume p: "pending c = int (length ks)"
    with assms(7) have ne: "ks \<noteq> []" by auto
    from p have p1: "pending c1 = int (length ks)" by (simp add: c1_def)
    note R = completions_fire_once [OF s1(2) s1(1) s1(4) s1(5) s1(6) ne p1, of w]
    from R show "calls (completions l w ks (loadData v s)) = calls s + 1"
      by (simp add: e s1(7))
    from R show "cities (completions l w ks (loadData v s)) l =
              Some (c\<lparr>pending := 0, onceLoaded := False\<rparr>)"
      by (simp add: e c1_def)
    {
      assume "has_map w \<and> map_zoom w \<le> 8 \<and> \<not> same_key c (view_footprint w)"
      with R show "loadedCity (completions l w ks (loadData v s)) = Some (canvasId s + 1)"
        and "canvasId (completions l w ks (loadData v s)) = canvasId s + 1"
        by (simp_all add: e k s1(8))
    }
  }
qed


theorem deferred_reload_witness:
  "has_map zoomed_view \<and> map_zoom zoomed_view \<le> 8 \<and>
   loadedCity (loadData small_view (init_state 0)) = Some 1 \<and>
   cities (loadData small_view (init_state 0)) 1 = Some first_city \<and>
   1 \<le> canvasId (loadData small_view (init_state 0)) \<and>
   is_current (loadData small_view (init_state 0)) \<and>
   0 < pending first_city \<and>
   \<not> same_key first_city (view_footprint zoomed_view) \<and>
   same_key first_city (view_footprint small_view) \<and>
   pending first_city = int (length [Failed, Loaded 0 1, Loaded 1 0, Failed]) \<and>
   loadData zoomed_view (loadData small_view (init_state 0)) =
     (loadData small_view (init_state 0))
       \<lparr>cities := (cities (loadData small_view (init_state 0)))
                    (1 \<mapsto> first_city\<lparr>onceLoaded := True\<rparr>)\<rparr> \<and>
   loadData zoomed_view (loadData zoomed_view (loadData small_view (init_state 0))) =
     loadData zoomed_view (loadData small_view (init_state 0)) \<and>
   loadData small_view (loadData small_view (init_state 0)) = loadData small_view (init_state 0) \<and>
   calls (completions 1 zoomed_view [Failed, Loaded 0 1, Loaded 1 0, Failed]
            (loadData zoomed_view (loadData small_view (init_state 0)))) = 1 \<and>
   loadedCity (completions 1 zoomed_view [Failed, Loaded 0 1, Loaded 1 0, Failed]
                 (loadData zoomed_view (loadData small_view (init_state 0)))) = Some 2 \<and>
   canvasId (completions 1 zoomed_view [Failed, Loaded 0 1, Loaded 1 0, Failed]
               (loadData zoomed_view (loadData small_view (init_state 0)))) = 2"
proof -
  have h: "has_map zoomed_view" "map_zoom zoomed_view \<le> 8"
    by (simp_all add: zoomed_view_def)
  have i: "1 \<le> canvasId (loadData small_view (init_state 0))"
    by (simp add: first_load_facts)
  have p: "0 < pending first_city" by (simp add: first_city_def)
  have k: "\<not> same_key first_city (view_footprint zoomed_view)"
    by (simp add: same_key_def view_footprint_zoomed first_city_def)
  have k': "same_key first_city (view_footprint small_view)"
    by (simp add: same_key_def view_footprint_small first_city_def)
  have n: "pending first_city = int (length [Failed, Loaded 0 1, Loaded 1 0, Failed])"
    by (simp add: first_city_def)
  have hk: "has_map zoomed_view \<and> map_zoom zoomed_view \<le> 8 \<and>
            \<not> same_key first_city (view_footprint zoomed_view)"
    using h k by simp
  note T = deferred_reload [OF h first_load_facts(1) first_load_facts(2) i first_load_facts(4) p k,
      of zoomed_view small_view "[Failed, Loaded 0 1, Loaded 1 0, Failed]" zoomed_view]
  note T1 = T [THEN conjunct1]
  note T2 = T [THEN conjunct2, THEN conjunct1, THEN mp, OF hk]
  note T3 = T [THEN conjunct2, THEN conjunct2, THEN conjunct1, THEN mp, OF k']
  note T4 = T [THEN conjunct2, THEN conjunct2, THEN conjunct2, THEN mp, OF n]
  note T5 = T4 [THEN conjunct2, THEN conjunct2, THEN mp, OF hk]
  have c: "calls (completions 1 zoomed_view [Failed, Loaded 0 1, Loaded 1 0, Failed]
            (loadData zoomed_view (loadData small_view (init_state 0)))) = 1"
    using T4 [THEN conjunct1] by (simp add: first_load_facts(5))
  have l: "loadedCity (completions 1 zoomed_view [Failed, Loaded 0 1, Loaded 1 0, Failed]
                 (loadData zoomed_view (loadData small_view (init_state 0)))) = Some 2"
    using T5 [THEN conjunct1] by (simp add: first_load_facts(3))
  have d: "canvasId (completions 1 zoomed_view [Failed, Loaded 0 1, Loaded 1 0, Failed]
               (loadData zoomed_view (loadData small_view (init_state 0)))) = 2"
    using T5 [THEN conjunct2] by (simp add: first_load_facts(3))
  from h first_load_facts(1,2) i first_load_facts(4) p k k' n T1 T2 T3 c l d
  show ?thesis by (simp only: simp_thms)
qed

text \<open>
  C2: a completion callback of a tile, for a load or for a failure, whose
  city is no longer \<^verbatim>\<open>loadedCity\<close> or whose generation is no longer the
  generation of the layer, does nothing but count \<^verbatim>\<open>pending\<close> down: it
  draws nothing, schedules no bind of a texture and calls no continuation,
  whatever the value of \<^verbatim>\<open>pending\<close>. The next \<^verbatim>\<open>update\<close> binds
  what it would have bound without the completion.
\<close>

theorem stale_completion_inert:
  assumes "cities s cid = Some c"
    and "loadedCity s \<noteq> Some cid \<or> \<not> is_current s"
  shows "makeCallback cid x y v s = s\<lparr>cities := (cities s)(cid \<mapsto> c\<lparr>pending := pending c - 1\<rparr>)\<rparr> \<and>
         makeErrorCallback cid v s = s\<lparr>cities := (cities s)(cid \<mapsto> c\<lparr>pending := pending c - 1\<rparr>)\<rparr> \<and>
         trace (makeCallback cid x y v s) = trace s \<and>
         trace (makeErrorCallback cid v s) = trace s \<and>
         textureUpdate (makeCallback cid x y v s) = textureUpdate s \<and>
         textureUpdate (makeErrorCallback cid v s) = textureUpdate s \<and>
         calls (makeCallback cid x y v s) = calls s \<and>
         calls (makeErrorCallback cid v s) = calls s \<and>
         trace (update_texture w (makeCallback cid x y v s)) = trace (update_texture w s) \<and>
         trace (update_texture w (makeErrorCallback cid v s)) = trace (update_texture w s) \<and>
         loadedTextureInfo (update_texture w (makeCallback cid x y v s)) =
           loadedTextureInfo (update_texture w s) \<and>
         loadedTextureInfo (update_texture w (makeErrorCallback cid v s)) =
           loadedTextureInfo (update_texture w s)"
proof -
  define s' where "s' = s\<lparr>cities := (cities s)(cid \<mapsto> c\<lparr>pending := pending c - 1\<rparr>)\<rparr>"
  have 1: "makeCallback cid x y v s = s'"
    using assms by (auto simp: makeCallback_def Let_def s'_def)
  have 2: "makeErrorCallback cid v s = s'"
    using assms by (auto simp: makeErrorCallback_def Let_def s'_def)
  have 3: "trace s' = trace s" "textureUpdate s' = textureUpdate s" "calls s' = calls s"
    by (simp_all add: s'_def)
  have 4: "trace (update_texture w s') = trace (update_texture w s)"
    "loadedTextureInfo (update_texture w s') = loadedTextureInfo (update_texture w s)"
    unfolding s'_def by (rule update_texture_pending [OF assms(1)])+
  show ?thesis
    unfolding 1 2 using 3 4 by (simp add: s'_def)
qed

theorem stale_completion_inert_witness:
  "cities (contextlost (loadData small_view (init_state 0))) 1 = Some first_city \<and>
   \<not> is_current (contextlost (loadData small_view (init_state 0))) \<and>
   makeCallback 1 0 1 small_view (contextlost (loadData small_view (init_state 0))) =
     (contextlost (loadData small_view (init_state 0)))
       \<lparr>cities := (cities (contextlost (loadData small_view (init_state 0))))
                    (1 \<mapsto> first_city\<lparr>pending := 3\<rparr>)\<rparr> \<and>
   trace (makeCallback 1 0 1 small_view (contextlost (loadData small_view (init_state 0)))) =
     trace (loadData small_view (init_state 0)) \<and>
   textureUpdate (makeErrorCallback 1 small_view (contextlost (loadData small_view (init_state 0))))
     = None"
proof -
  have c: "cities (contextlost (loadData small_view (init_state 0))) 1 = Some first_city"
    using first_load_facts(2) by (simp add: contextlost_def)
  have g: "\<not> is_current (contextlost (loadData small_view (init_state 0)))"
    using first_load_facts(4) by (simp add: contextlost_def is_current_def)
  have d: "loadedCity (contextlost (loadData small_view (init_state 0))) \<noteq> Some 1 \<or>
           \<not> is_current (contextlost (loadData small_view (init_state 0)))"
    using g by simp
  note T = stale_completion_inert [OF c d, of 0 1 small_view small_view]
  have p: "pending first_city - 1 = 3" by (simp add: first_city_def)
  have 1: "makeCallback 1 0 1 small_view (contextlost (loadData small_view (init_state 0))) =
     (contextlost (loadData small_view (init_state 0)))
       \<lparr>cities := (cities (contextlost (loadData small_view (init_state 0))))
                    (1 \<mapsto> first_city\<lparr>pending := 3\<rparr>)\<rparr>"
    using T [THEN conjunct1] by (simp only: p)
  have 2: "trace (makeCallback 1 0 1 small_view (contextlost (loadData small_view (init_state 0)))) =
     trace (loadData small_view (init_state 0))"
    using T [THEN conjunct2, THEN conjunct2, THEN conjunct1] by (simp add: contextlost_def)
  have 3: "textureUpdate (makeErrorCallback 1 small_view (contextlost (loadData small_view (init_state 0))))
     = None"
    using T [THEN conjunct2, THEN conjunct2, THEN conjunct2, THEN conjunct2, THEN conjunct2, THEN conjunct1]
      first_load_facts(6)
    by (simp add: contextlost_def)
  from c g 1 2 3 show ?thesis by (simp only: simp_thms)
qed


end
